theory Spec2Isabelle
  imports Main
begin

section \<open>Requiem: a wrapper around Node's HTTP request functions\<close>

text \<open>
  The repository holds two builds of the library. \<^verbatim>\<open>index.ts\<close> is the TypeScript
  source (it follows the README in \<^verbatim>\<open>src/README.md\<close>); \<^verbatim>\<open>index.js\<close> is a compiled
  build (it follows the tests in \<^verbatim>\<open>src/tests/requiem-tests.ts\<close>). For what is
  modelled here they are the same, function for function, except for the first
  statements of \<^verbatim>\<open>followRedirects\<close>, so the functions below take the build as a
  parameter and branch on it only there. (The compiled build also adds a method
  \<^verbatim>\<open>reverseProxy\<close> to the response, and \<^verbatim>\<open>requestJson\<close> parses the buffered body;
  neither is modelled.)

  Node's \<^verbatim>\<open>http\<close>/\<^verbatim>\<open>https\<close> request primitive, the WHATWG \<^verbatim>\<open>URL\<close> class and
  \<^verbatim>\<open>JSON.stringify\<close> are not code of the repository: they are parameters (the
  record \<open>env\<close>). JavaScript numbers are modelled as \<open>int\<close>, strings and Buffers as
  \<open>string\<close>, an optional property as an \<open>option\<close> (\<open>None\<close> is "key absent").
\<close>

subsection \<open>Printing numbers, as a template literal does\<close>

definition digit :: "nat \<Rightarrow> char" where
  "digit d =
     (if d = 0 then CHR ''0'' else if d = 1 then CHR ''1'' else if d = 2 then CHR ''2''
      else if d = 3 then CHR ''3'' else if d = 4 then CHR ''4'' else if d = 5 then CHR ''5''
      else if d = 6 then CHR ''6'' else if d = 7 then CHR ''7'' else if d = 8 then CHR ''8''
      else CHR ''9'')"

function string_of_nat :: "nat \<Rightarrow> string" where
  "string_of_nat n =
     (if n < 10 then [digit n] else string_of_nat (n div 10) @ [digit (n mod 10)])"
  by pat_completeness auto
termination
  by (relation "measure id") auto

declare string_of_nat.simps [simp del]

definition string_of_int :: "int \<Rightarrow> string" where
  "string_of_int i =
     (if i < 0 then CHR ''-'' # string_of_nat (nat (- i)) else string_of_nat (nat i))"

subsection \<open>Data\<close>

datatype RequiemErrorCode =
  Timeout | RequestAbort | TooManyRedirects | InvalidUrl | InvalidStatusCode
  | InvalidJsonBody | InvalidRedirectUrl

text \<open>A value that \<^verbatim>\<open>bodyJson\<close> can hold (\<^verbatim>\<open>any\<close> in the source).\<close>

datatype json =
  JUndefined | JNull | JBool bool | JNum int | JStr string
  | JArr "json list" | JObj "(string \<times> json) list"

text \<open>\<^verbatim>\<open>followRedirects?: number\<close>; the compiled build also tests for \<^verbatim>\<open>false\<close>.\<close>

datatype follow = FollowUnset | FollowFalse | FollowNum int

text \<open>\<^verbatim>\<open>throwOnErrorResponse?: boolean | number\<close>.\<close>

datatype throwOn = ThrowUnset | ThrowBool bool | ThrowNum int

text \<open>
  \<^verbatim>\<open>RequiemOptionsObject\<close>. Every field carries the prefix \<open>opt_\<close>, since
  \<^verbatim>\<open>followRedirects\<close>, \<^verbatim>\<open>body\<close> and \<^verbatim>\<open>headers\<close> also name a function and fields of
  the response. \<open>opt_rest\<close> stands for the other options that are passed through
  to \<^verbatim>\<open>http.request\<close> (agent, TLS options).
\<close>

record options =
  opt_url :: "string option"
  opt_host :: "string option"
  opt_path :: "string option"
  opt_pathname :: "string option"
  opt_port :: "int option"
  opt_protocol :: "string option"
  opt_body :: "string option"
  opt_bodyJson :: "json option"
  opt_method :: "string option"
  opt_followRedirects :: follow
  opt_throwOnErrorResponse :: throwOn
  opt_headers :: "(string \<times> string) list"
  opt_timeout :: "int option"
  opt_auth :: "string option"
  opt_rest :: "(string \<times> string) list"

text \<open>The events of a response stream, once a consumer listens.\<close>

datatype stream_event = Data string | End | StreamError string

text \<open>\<^verbatim>\<open>http.IncomingMessage\<close>, and \<^verbatim>\<open>RequiemResponse\<close> which adds \<^verbatim>\<open>requestedUrl\<close>.\<close>

record IncomingMessage =
  statusCode :: "int option"
  headers :: "(string \<times> string) list"
  stream :: "stream_event list"

record RequiemResponse = IncomingMessage +
  requestedUrl :: string

record RequiemResponseWithBody = RequiemResponse +
  body :: string

text \<open>
  \<^verbatim>\<open>RequiemRequest\<close>: the \<^verbatim>\<open>http.ClientRequest\<close> made by \<^verbatim>\<open>lib.request(url, httpOptions)\<close>
  with \<^verbatim>\<open>requestedUrl\<close> added. \<open>secure\<close> says that \<^verbatim>\<open>lib\<close> is \<^verbatim>\<open>https\<close>; \<open>setHeaders\<close>,
  \<open>written\<close> and \<open>ended\<close> record the calls of \<^verbatim>\<open>setHeader\<close>, \<^verbatim>\<open>write\<close> and \<^verbatim>\<open>end\<close>.
\<close>

record RequiemRequest =
  req_requestedUrl :: string
  httpOptions :: options
  secure :: bool
  setHeaders :: "(string \<times> string) list"
  written :: "string list"
  ended :: bool

record RequiemError =
  code :: RequiemErrorCode
  message :: string
  req :: "RequiemRequest option"
  res :: "RequiemResponse option"

text \<open>
  What a promise is rejected with: a \<^verbatim>\<open>RequiemError\<close>, or the transport's or the
  serializer's own error, passed on as it is.
\<close>

datatype failure = Requiem RequiemError | Raw string

text \<open>A promise settles once: \<^verbatim>\<open>resolve\<close> and \<^verbatim>\<open>reject\<close> on a settled promise do nothing.\<close>

datatype 'a promise = Pending | Resolved 'a | Rejected failure

definition resolve :: "'a \<Rightarrow> 'a promise \<Rightarrow> 'a promise" where
  "resolve v p = (case p of Pending \<Rightarrow> Resolved v | _ \<Rightarrow> p)"

definition reject :: "failure \<Rightarrow> 'a promise \<Rightarrow> 'a promise" where
  "reject e p = (case p of Pending \<Rightarrow> Rejected e | _ \<Rightarrow> p)"

text \<open>\<^verbatim>\<open>q.then(resolve).catch(reject)\<close>: the outcome of \<open>q\<close>, if any, settles \<open>p\<close>.\<close>

definition settle_with :: "'a promise \<Rightarrow> 'a promise \<Rightarrow> 'a promise" where
  "settle_with q p =
     (case q of Pending \<Rightarrow> p | Resolved v \<Rightarrow> resolve v p | Rejected e \<Rightarrow> reject e p)"

text \<open>The events a request emits.\<close>

datatype event =
  EvResponse IncomingMessage | EvError string | EvTimeout | EvAbort

text \<open>
  The external collaborators. \<open>url_parse s\<close> is the \<^verbatim>\<open>href\<close> of \<^verbatim>\<open>new URL(s)\<close> and
  \<open>url_resolve loc base\<close> that of \<^verbatim>\<open>new URL(loc, base)\<close>, \<open>None\<close> when the constructor
  throws; \<open>url_set_port\<close> and \<open>url_set_pathname\<close> are the setters of a URL, on its
  \<^verbatim>\<open>href\<close>. \<open>lib_request secure url httpOptions\<close> is the call
  \<^verbatim>\<open>lib.request(url, httpOptions)\<close> of \<^verbatim>\<open>https\<close> (\<open>secure\<close>) or \<^verbatim>\<open>http\<close>: \<open>None\<close> when it
  returns the request, \<open>Some e\<close> when it throws \<open>e\<close> (a protocol that the module
  does not support, a method that is no token, an agent of the other protocol).
  \<open>json_stringify v\<close> is the text \<^verbatim>\<open>JSON.stringify(v)\<close> hands to
  \<^verbatim>\<open>req.write\<close>, or the error thrown by one of the two. \<open>transport issued r\<close> is the
  sequence of events that request \<open>r\<close> emits, given the requests issued before it.
\<close>

record env =
  url_parse :: "string \<Rightarrow> string option"
  url_resolve :: "string \<Rightarrow> string option \<Rightarrow> string option"
  url_set_port :: "string \<Rightarrow> string \<Rightarrow> string"
  url_set_pathname :: "string \<Rightarrow> string \<Rightarrow> string"
  lib_request :: "bool \<Rightarrow> string \<Rightarrow> options \<Rightarrow> string option"
  json_stringify :: "json \<Rightarrow> failure + string"
  transport :: "RequiemRequest list \<Rightarrow> RequiemRequest \<Rightarrow> event list"

subsection \<open>JavaScript truthiness\<close>

text \<open>A string is truthy when it is present and not empty; a number, when it is not 0.\<close>

definition truthy_str :: "string option \<Rightarrow> bool" where
  "truthy_str s = (case s of None \<Rightarrow> False | Some v \<Rightarrow> v \<noteq> [])"

definition truthy_num :: "int option \<Rightarrow> bool" where
  "truthy_num n = (case n of None \<Rightarrow> False | Some v \<Rightarrow> v \<noteq> 0)"

text \<open>\<^verbatim>\<open>a || b\<close> on strings.\<close>

definition or_str :: "string option \<Rightarrow> string \<Rightarrow> string" where
  "or_str a b = (case a of None \<Rightarrow> b | Some v \<Rightarrow> if v = [] then b else v)"

subsection \<open>Building a request\<close>

text \<open>\<^verbatim>\<open>formatUrl\<close>; \<open>None\<close> when it throws (no host, or \<^verbatim>\<open>new URL\<close> throws).\<close>

definition formatUrl :: "env \<Rightarrow> options \<Rightarrow> string option" where
  "formatUrl env args =
     (if truthy_str (opt_host args) then
        (case url_parse env
                (or_str (opt_protocol args) ''http:'' @ ''//'' @
                 or_str (opt_host args) ''example.com'') of
           None \<Rightarrow> None
         | Some url \<Rightarrow>
             let url1 = (if truthy_num (opt_port args)
                         then url_set_port env (string_of_int (the (opt_port args))) url
                         else url);
                 url2 = (if truthy_str (opt_path args) \<or> truthy_str (opt_pathname args)
                         then url_set_pathname env
                                (if truthy_str (opt_path args) then the (opt_path args)
                                 else the (opt_pathname args)) url1
                         else url1)
             in Some url2)
      else None)"

definition RequiemError_new ::
  "RequiemErrorCode \<Rightarrow> string \<Rightarrow> RequiemRequest option \<Rightarrow> RequiemResponse option \<Rightarrow> failure" where
  "RequiemError_new c m rq rs = Requiem \<lparr>code = c, message = m, req = rq, res = rs\<rparr>"

text \<open>
  The rest-destructuring and the two \<^verbatim>\<open>delete\<close>s of \<^verbatim>\<open>createRequest\<close>: a copy of the
  options without \<^verbatim>\<open>followRedirects\<close>, \<^verbatim>\<open>throwOnErrorResponse\<close>, \<^verbatim>\<open>body\<close>, \<^verbatim>\<open>bodyJson\<close>.
\<close>

definition reqOptions :: "options \<Rightarrow> options" where
  "reqOptions optionsObj =
     optionsObj\<lparr>opt_followRedirects := FollowUnset, opt_throwOnErrorResponse := ThrowUnset,
                opt_body := None, opt_bodyJson := None\<rparr>"

text \<open>\<^verbatim>\<open>/^https:/.test(urlStr)\<close>.\<close>

definition is_https :: "string \<Rightarrow> bool" where
  "is_https urlStr = (take 6 urlStr = ''https:'')"

text \<open>
  \<^verbatim>\<open>createRequest\<close> on an options object. The first statement assigns
  \<^verbatim>\<open>optionsObj.method\<close> on the object it was given, so the function returns that
  object as it is after the call, next to the request or the error thrown. The
  \<^verbatim>\<open>try\<close> block holds the making of the URL only: what it throws becomes
  \<^verbatim>\<open>InvalidUrl\<close>. The call \<^verbatim>\<open>lib.request(url, httpOptions)\<close> comes after it, and what
  that throws is thrown on as it is.
\<close>

definition createRequest :: "env \<Rightarrow> options \<Rightarrow> options \<times> (failure + RequiemRequest)" where
  "createRequest env options =
     (let optionsObj = options\<lparr>opt_method := Some (or_str (opt_method options) ''GET'')\<rparr>;
          httpOptions = reqOptions optionsObj;
          url = (case opt_url optionsObj of
                   Some u \<Rightarrow> url_parse env u
                 | None \<Rightarrow> formatUrl env optionsObj)
      in case url of
           None \<Rightarrow>
             (optionsObj,
              Inl (RequiemError_new InvalidUrl ''URL could not be formatted properly'' None None))
         | Some urlStr \<Rightarrow>
             (case lib_request env (is_https urlStr) urlStr httpOptions of
                Some e \<Rightarrow> (optionsObj, Inl (Raw e))
              | None \<Rightarrow>
                  (optionsObj,
                   Inr \<lparr>req_requestedUrl = urlStr, httpOptions = httpOptions,
                        secure = is_https urlStr, setHeaders = [], written = [],
                        ended = False\<rparr>)))"

subsection \<open>Event wiring\<close>

text \<open>
  The state of one request in flight: the two flags of \<^verbatim>\<open>wireRequestEvents\<close>,
  \<^verbatim>\<open>req.aborted\<close>, the promise that \<^verbatim>\<open>reject\<close> belongs to, the number of times the
  \<^verbatim>\<open>abort\<close> listener has called \<^verbatim>\<open>reject\<close>, and the requests issued so far.
\<close>

record flight =
  timedOut :: bool
  rejected :: bool
  aborted :: bool
  settled :: "RequiemResponse promise"
  abortRejects :: nat
  issued :: "RequiemRequest list"

definition timeout_message :: "options \<Rightarrow> string" where
  "timeout_message options =
     ''Reached timeout limit ('' @
     (case opt_timeout options of
        Some timeout \<Rightarrow> string_of_int timeout @ ''ms''
      | None \<Rightarrow> ''node default'') @
     ''), request aborted''"

text \<open>The \<^verbatim>\<open>abort\<close> listener.\<close>

definition on_abort :: "RequiemRequest \<Rightarrow> options \<Rightarrow> flight \<Rightarrow> flight" where
  "on_abort rq options st =
     (if rejected st then st
      else if timedOut st then
        st\<lparr>rejected := True, abortRejects := Suc (abortRejects st),
           settled := reject (RequiemError_new Timeout (timeout_message options) (Some rq) None)
                        (settled st)\<rparr>
      else
        st\<lparr>rejected := True, abortRejects := Suc (abortRejects st),
           settled := reject (RequiemError_new RequestAbort ''Request was aborted'' (Some rq) None)
                        (settled st)\<rparr>)"

text \<open>
  \<^verbatim>\<open>req.abort()\<close> of Node's \<^verbatim>\<open>ClientRequest\<close>: the first call marks the request
  aborted and emits \<^verbatim>\<open>abort\<close>; a later call does nothing.
\<close>

definition req_abort :: "RequiemRequest \<Rightarrow> options \<Rightarrow> flight \<Rightarrow> flight" where
  "req_abort rq options st =
     (if aborted st then st else on_abort rq options (st\<lparr>aborted := True\<rparr>))"

text \<open>The \<^verbatim>\<open>timeout\<close> listener.\<close>

definition on_timeout :: "RequiemRequest \<Rightarrow> options \<Rightarrow> flight \<Rightarrow> flight" where
  "on_timeout rq options st =
     (let st1 = st\<lparr>timedOut := True\<rparr>
      in if aborted st1 then st1 else req_abort rq options st1)"

text \<open>The \<^verbatim>\<open>error\<close> listener is \<^verbatim>\<open>reject\<close> itself.\<close>

definition on_error :: "string \<Rightarrow> flight \<Rightarrow> flight" where
  "on_error e st = st\<lparr>settled := reject (Raw e) (settled st)\<rparr>"

text \<open>
  The \<^verbatim>\<open>response\<close> listener of \<^verbatim>\<open>sendRequest\<close> and of a hop of \<^verbatim>\<open>followRedirects\<close>:
  \<^verbatim>\<open>res.on('error', reject); h(res).then(resolve).catch(reject)\<close>, where \<open>h\<close> issues
  requests of its own and returns a promise. An \<^verbatim>\<open>error\<close> of a response stream
  is modelled where the stream is consumed (\<open>on_stream\<close> below); an error on the
  stream of a response that nobody consumes is not among the events modelled.
\<close>

definition on_response ::
  "(IncomingMessage \<Rightarrow> RequiemRequest list \<Rightarrow> RequiemRequest list \<times> RequiemResponse promise)
   \<Rightarrow> IncomingMessage \<Rightarrow> flight \<Rightarrow> flight" where
  "on_response h r st =
     (case h r (issued st) of
        (log', p) \<Rightarrow> st\<lparr>issued := log', settled := settle_with p (settled st)\<rparr>)"

text \<open>
  One event of a request with \<^verbatim>\<open>wireRequestEvents(req, options, reject)\<close> and the
  \<^verbatim>\<open>response\<close> listener attached. An \<^verbatim>\<open>abort\<close> event in the list is one the
  transport emits (after a call of \<^verbatim>\<open>req.abort()\<close> by the caller, say), so
  \<^verbatim>\<open>req.aborted\<close> holds when its listener runs.
\<close>

definition dispatch ::
  "(IncomingMessage \<Rightarrow> RequiemRequest list \<Rightarrow> RequiemRequest list \<times> RequiemResponse promise)
   \<Rightarrow> RequiemRequest \<Rightarrow> options \<Rightarrow> event \<Rightarrow> flight \<Rightarrow> flight" where
  "dispatch h rq options ev st =
     (case ev of
        EvResponse r \<Rightarrow> on_response h r st
      | EvError e \<Rightarrow> on_error e st
      | EvTimeout \<Rightarrow> on_timeout rq options st
      | EvAbort \<Rightarrow> on_abort rq options (st\<lparr>aborted := True\<rparr>))"

fun run_events ::
  "(IncomingMessage \<Rightarrow> RequiemRequest list \<Rightarrow> RequiemRequest list \<times> RequiemResponse promise)
   \<Rightarrow> RequiemRequest \<Rightarrow> options \<Rightarrow> event list \<Rightarrow> flight \<Rightarrow> flight" where
  "run_events h rq options [] st = st"
| "run_events h rq options (ev # evs) st =
     run_events h rq options evs (dispatch h rq options ev st)"

definition new_flight :: "RequiemRequest list \<Rightarrow> flight" where
  "new_flight log =
     \<lparr>timedOut = False, rejected = False, aborted = False, settled = Pending,
      abortRejects = 0, issued = log\<rparr>"

subsection \<open>The redirect resolver\<close>

datatype build = IndexTs | IndexJs

definition defaultFollowRedirects :: int where
  "defaultFollowRedirects = 5"

text \<open>
  \<^verbatim>\<open>if (options.followRedirects === false) { return res; }\<close> stands in
  \<^verbatim>\<open>index.js\<close> only.
\<close>

definition redirects_off :: "build \<Rightarrow> options \<Rightarrow> bool" where
  "redirects_off b options =
     (case b of IndexTs \<Rightarrow> False | IndexJs \<Rightarrow> opt_followRedirects options = FollowFalse)"

text \<open>
  \<^verbatim>\<open>maxDepth\<close>. In \<^verbatim>\<open>index.ts\<close> it is
  \<^verbatim>\<open>options.followRedirects || defaultFollowRedirects\<close>, so every falsy value (absent,
  \<^verbatim>\<open>false\<close>, \<^verbatim>\<open>0\<close>) gives the default; in \<^verbatim>\<open>index.js\<close> it is
  \<^verbatim>\<open>typeof(options.followRedirects) !== 'undefined' ? options.followRedirects : defaultFollowRedirects\<close>
  (reached with a number or nothing, \<^verbatim>\<open>false\<close> having returned before; in
  \<^verbatim>\<open>depth > false\<close> JavaScript reads \<^verbatim>\<open>false\<close> as 0).
\<close>

definition maxDepth :: "build \<Rightarrow> options \<Rightarrow> int" where
  "maxDepth b options =
     (case b of
        IndexTs \<Rightarrow>
          (case opt_followRedirects options of
             FollowNum n \<Rightarrow> if n = 0 then defaultFollowRedirects else n
           | FollowFalse \<Rightarrow> defaultFollowRedirects
           | FollowUnset \<Rightarrow> defaultFollowRedirects)
      | IndexJs \<Rightarrow>
          (case opt_followRedirects options of
             FollowNum n \<Rightarrow> n
           | FollowFalse \<Rightarrow> 0
           | FollowUnset \<Rightarrow> defaultFollowRedirects))"

text \<open>\<^verbatim>\<open>urls[0]\<close> in a template literal, and \<^verbatim>\<open>urls[urls.length - 1]\<close>.\<close>

definition first_url :: "string list \<Rightarrow> string" where
  "first_url urls = (case urls of [] \<Rightarrow> ''undefined'' | u # _ \<Rightarrow> u)"

definition last_url :: "string list \<Rightarrow> string option" where
  "last_url urls = (if urls = [] then None else Some (last urls))"

definition too_many_message :: "string list \<Rightarrow> int \<Rightarrow> string" where
  "too_many_message urls m =
     ''\"'' @ first_url urls @ ''\" redirected too many times (max redirects: '' @
     string_of_int m @ '')''"

text \<open>\<^verbatim>\<open>res.headers.location\<close>.\<close>

definition location :: "RequiemResponse \<Rightarrow> string option" where
  "location r = map_of (headers r) ''location''"

text \<open>
  \<^verbatim>\<open>!statusCode || statusCode < 300 || statusCode >= 400 || !location\<close>: the
  response is returned as it is.
\<close>

definition not_a_redirect :: "RequiemResponse \<Rightarrow> bool" where
  "not_a_redirect r =
     (case statusCode r of
        None \<Rightarrow> True
      | Some c \<Rightarrow> c = 0 \<or> c < 300 \<or> c \<ge> 400 \<or> \<not> truthy_str (location r))"

text \<open>
  The options of the next hop: a copy of the options without \<^verbatim>\<open>host\<close>, \<^verbatim>\<open>path\<close>,
  \<^verbatim>\<open>port\<close> and \<^verbatim>\<open>protocol\<close>, with \<^verbatim>\<open>url\<close> the new URL and \<^verbatim>\<open>method\<close> \<^verbatim>\<open>GET\<close>.
\<close>

definition newOptions :: "options \<Rightarrow> string \<Rightarrow> options" where
  "newOptions options newUrl =
     options\<lparr>opt_host := None, opt_path := None, opt_port := None, opt_protocol := None,
             opt_url := Some newUrl, opt_method := Some ''GET''\<rparr>"

text \<open>\<^verbatim>\<open>Object.assign(res, { requestedUrl: url })\<close>.\<close>

definition assign_requestedUrl :: "IncomingMessage \<Rightarrow> string \<Rightarrow> RequiemResponse" where
  "assign_requestedUrl r u = IncomingMessage.extend r (RequiemResponse.fields u)"

lemma run_events_cong [fundef_cong]:
  assumes "evs = evs'" "st = st'" "rq = rq'" "options = options'"
    and "\<And>r s. f r s = g r s"
  shows "run_events f rq options evs st = run_events g rq' options' evs' st'"
proof -
  have "f = g" using assms(5) by (intro ext)
  then show ?thesis using assms(1-4) by simp
qed

text \<open>
  \<^verbatim>\<open>followRedirects(urls, res, options, depth)\<close>. The argument \<open>log\<close> is the list of
  the requests issued so far; the result is the list afterwards and the promise
  returned. A hop creates the request, attaches the \<^verbatim>\<open>response\<close> listener (which
  calls \<^verbatim>\<open>followRedirects\<close> again), wires the events, ends the request, and then the
  request's events run, one after the other. The hops of a chain run in sequence:
  all events of a later hop are delivered before the next event of the request
  before it. The recursion ends because a call beyond \<^verbatim>\<open>maxDepth\<close> fails at once.
\<close>

function followRedirects ::
  "build \<Rightarrow> env \<Rightarrow> string list \<Rightarrow> RequiemResponse \<Rightarrow> options \<Rightarrow> nat \<Rightarrow> RequiemRequest list
   \<Rightarrow> RequiemRequest list \<times> RequiemResponse promise" where
  "followRedirects b env urls r options depth log =
     (if redirects_off b options then (log, Resolved r)
      else if int depth > maxDepth b options then
        (log, Rejected (RequiemError_new TooManyRedirects
                 (too_many_message urls (maxDepth b options)) None (Some r)))
      else if not_a_redirect r then (log, Resolved r)
      else
        (case url_resolve env (the (location r)) (last_url urls) of
           None \<Rightarrow>
             (log, Rejected (RequiemError_new InvalidRedirectUrl
                      (''Invalid redirect URL: '' @ the (location r)) None (Some r)))
         | Some newUrl \<Rightarrow>
             (case createRequest env (newOptions options newUrl) of
                (opts', Inl e) \<Rightarrow> (log, Rejected e)
              | (opts', Inr rq) \<Rightarrow>
                  (let rq' = rq\<lparr>ended := True\<rparr>;
                       st = run_events
                              (\<lambda>r' log'.
                                 followRedirects b env (urls @ [newUrl])
                                   (assign_requestedUrl r' newUrl) options (Suc depth) log')
                              rq' opts' (transport env log rq') (new_flight (log @ [rq']))
                   in (issued st, settled st)))))"
  by pat_completeness auto
termination
  by (relation "measure (\<lambda>(b, env, urls, r, options, depth, log).
                   nat (maxDepth b options + 1 - int depth))") auto

declare followRedirects.simps [simp del]

subsection \<open>Status validation\<close>

text \<open>\<^verbatim>\<open>${result.statusCode}\<close>.\<close>

definition status_text :: "int option \<Rightarrow> string" where
  "status_text c = (case c of None \<Rightarrow> ''undefined'' | Some n \<Rightarrow> string_of_int n)"

definition invalid_status_message :: "RequiemResponse \<Rightarrow> string" where
  "invalid_status_message result =
     ''Received invalid status code from \"'' @ requestedUrl result @ ''\": '' @
     status_text (statusCode result)"

text \<open>The part of \<^verbatim>\<open>responseHandler\<close> after the redirects: \<open>Inl\<close> is the error thrown.\<close>

definition validate :: "RequiemRequest \<Rightarrow> options \<Rightarrow> RequiemResponse \<Rightarrow> failure + RequiemResponse" where
  "validate rq options result =
     (case opt_throwOnErrorResponse options of
        ThrowUnset \<Rightarrow> Inr result
      | ThrowNum n \<Rightarrow>
          if statusCode result \<noteq> Some n then
            Inl (RequiemError_new InvalidStatusCode
                   (invalid_status_message result @ '' (expected '' @ string_of_int n @ '')'')
                   (Some rq) (Some result))
          else Inr result
      | ThrowBool t \<Rightarrow>
          if t \<and> truthy_num (statusCode result) \<and> the (statusCode result) \<ge> 400 then
            Inl (RequiemError_new InvalidStatusCode (invalid_status_message result)
                   (Some rq) (Some result))
          else Inr result)"

text \<open>An \<^verbatim>\<open>async\<close> function that awaits \<open>p\<close> and then runs \<open>f\<close>, which may throw.\<close>

definition await_then :: "'a promise \<Rightarrow> ('a \<Rightarrow> failure + 'b) \<Rightarrow> 'b promise" where
  "await_then p f =
     (case p of
        Pending \<Rightarrow> Pending
      | Rejected e \<Rightarrow> Rejected e
      | Resolved v \<Rightarrow> (case f v of Inl e \<Rightarrow> Rejected e | Inr w \<Rightarrow> Resolved w))"

definition responseHandler ::
  "build \<Rightarrow> env \<Rightarrow> RequiemRequest \<Rightarrow> IncomingMessage \<Rightarrow> options \<Rightarrow> RequiemRequest list
   \<Rightarrow> RequiemRequest list \<times> RequiemResponse promise" where
  "responseHandler b env rq r options log =
     (case followRedirects b env [req_requestedUrl rq]
             (assign_requestedUrl r (req_requestedUrl rq)) options 0 log of
        (log', p) \<Rightarrow> (log', await_then p (validate rq options)))"

subsection \<open>Sending\<close>

text \<open>
  The body part of \<^verbatim>\<open>sendRequest\<close>: the request after the calls of \<^verbatim>\<open>setHeader\<close>,
  \<^verbatim>\<open>write\<close> and \<^verbatim>\<open>end\<close>, and the error handed to \<^verbatim>\<open>reject\<close> when serializing or
  writing the JSON body throws (the function then returns before \<^verbatim>\<open>req.end()\<close>).
\<close>

definition write_body :: "env \<Rightarrow> options \<Rightarrow> RequiemRequest \<Rightarrow> RequiemRequest \<times> failure option" where
  "write_body env optionsObj rq =
     (case opt_bodyJson optionsObj of
        Some v \<Rightarrow>
          (let rq1 = rq\<lparr>setHeaders := setHeaders rq @ [(''Content-Type'', ''application/json'')]\<rparr>
           in case json_stringify env v of
                Inl e \<Rightarrow> (rq1, Some e)
              | Inr text \<Rightarrow> (rq1\<lparr>written := written rq1 @ [text], ended := True\<rparr>, None))
      | None \<Rightarrow>
          (case opt_body optionsObj of
             Some bd \<Rightarrow> (rq\<lparr>written := written rq @ [bd], ended := True\<rparr>, None)
           | None \<Rightarrow> (rq\<lparr>ended := True\<rparr>, None)))"

text \<open>
  \<^verbatim>\<open>sendRequest(req, options)\<close> on an options object: the request as sent, the
  requests issued afterwards, and the promise returned once the request's events
  have run.
\<close>

definition sendRequest ::
  "build \<Rightarrow> env \<Rightarrow> RequiemRequest \<Rightarrow> options \<Rightarrow> RequiemRequest list
   \<Rightarrow> RequiemRequest \<times> RequiemRequest list \<times> RequiemResponse promise" where
  "sendRequest b env rq optionsObj log =
     (case write_body env optionsObj rq of
        (rq', err) \<Rightarrow>
          (let st0 = new_flight (log @ [rq']);
               st1 = (case err of
                        Some e \<Rightarrow> st0\<lparr>settled := reject e (settled st0)\<rparr>
                      | None \<Rightarrow> st0);
               st = run_events (\<lambda>r log'. responseHandler b env rq' r optionsObj log')
                      rq' optionsObj (transport env log rq') st1
           in (rq', issued st, settled st)))"

subsection \<open>The public functions, on the caller's objects\<close>

text \<open>
  \<^verbatim>\<open>RequiemOptions = string | RequiemOptionsObject\<close>. An options object is passed by
  reference: \<open>Obj a\<close> is the object at address \<open>a\<close> of the heap, a list of objects
  (a reference of JavaScript always points to an object, so \<open>a\<close> is below the
  length of the heap).
\<close>

datatype RequiemOptions = Url string | Obj nat

type_synonym heap = "options list"

definition empty_options :: options where
  "empty_options =
     \<lparr>opt_url = None, opt_host = None, opt_path = None, opt_pathname = None,
      opt_port = None, opt_protocol = None, opt_body = None, opt_bodyJson = None,
      opt_method = None, opt_followRedirects = FollowUnset,
      opt_throwOnErrorResponse = ThrowUnset, opt_headers = [], opt_timeout = None,
      opt_auth = None, opt_rest = []\<rparr>"

text \<open>A string gives a new object \<^verbatim>\<open>{ url: options }\<close>; an object is returned itself.\<close>

definition getObjectionsObject :: "RequiemOptions \<Rightarrow> heap \<Rightarrow> nat \<times> heap" where
  "getObjectionsObject options h =
     (case options of
        Url u \<Rightarrow> (length h, h @ [empty_options\<lparr>opt_url := Some u\<rparr>])
      | Obj a \<Rightarrow> (a, h))"

text \<open>The exported \<^verbatim>\<open>createRequest(options)\<close>: the heap afterwards, and the result.\<close>

definition createRequest_heap ::
  "env \<Rightarrow> RequiemOptions \<Rightarrow> heap \<Rightarrow> heap \<times> (failure + RequiemRequest)" where
  "createRequest_heap env options h =
     (case getObjectionsObject options h of
        (a, h1) \<Rightarrow>
          (case createRequest env (h1 ! a) of
             (optionsObj, result) \<Rightarrow> (h1[a := optionsObj], result)))"

text \<open>
  \<^verbatim>\<open>request(options)\<close>. It is not \<^verbatim>\<open>async\<close>: an error of \<^verbatim>\<open>createRequest\<close> is thrown
  to the caller (\<open>Inl\<close>), not returned as a rejected promise.
\<close>

definition request ::
  "build \<Rightarrow> env \<Rightarrow> RequiemOptions \<Rightarrow> heap \<Rightarrow> RequiemRequest list
   \<Rightarrow> heap \<times> RequiemRequest list \<times> (failure + RequiemResponse promise)" where
  "request b env options h log =
     (case getObjectionsObject options h of
        (a, h1) \<Rightarrow>
          (case createRequest_heap env (Obj a) h1 of
             (h2, Inl e) \<Rightarrow> (h2, log, Inl e)
           | (h2, Inr rq) \<Rightarrow>
               (case sendRequest b env rq (h2 ! a) log of
                  (rq', log', p) \<Rightarrow> (h2, log', Inr p))))"

subsection \<open>Buffered body\<close>

text \<open>
  The state while \<^verbatim>\<open>requestBody\<close> consumes the response: the chunks pushed, the
  promise of \<^verbatim>\<open>request\<close> (whose \<^verbatim>\<open>reject\<close> is the \<^verbatim>\<open>error\<close> listener that
  \<^verbatim>\<open>sendRequest\<close> and \<^verbatim>\<open>followRedirects\<close> put on the response), and the promise that
  \<^verbatim>\<open>requestBody\<close> returns.
\<close>

record consumer =
  buffers :: "string list"
  upstream :: "RequiemResponse promise"
  out :: "RequiemResponseWithBody promise"

text \<open>\<^verbatim>\<open>Object.assign(res, { body: Buffer.concat(buffers) })\<close>.\<close>

definition assign_body :: "RequiemResponse \<Rightarrow> string list \<Rightarrow> RequiemResponseWithBody" where
  "assign_body r bufs = RequiemResponse.extend r (RequiemResponseWithBody.fields (concat bufs))"

text \<open>
  One event of the response stream. The new promise has a \<^verbatim>\<open>resolve\<close> only. Its
  value is the response object itself, so an \<^verbatim>\<open>end\<close> after the first would assign
  the body of that object again.
\<close>

definition on_stream :: "RequiemResponse \<Rightarrow> stream_event \<Rightarrow> consumer \<Rightarrow> consumer" where
  "on_stream r ev c =
     (case ev of
        Data chunk \<Rightarrow> c\<lparr>buffers := buffers c @ [chunk]\<rparr>
      | End \<Rightarrow>
          c\<lparr>out := (case out c of
                      Rejected e \<Rightarrow> Rejected e
                    | _ \<Rightarrow> Resolved (assign_body r (buffers c)))\<rparr>
      | StreamError e \<Rightarrow> c\<lparr>upstream := reject (Raw e) (upstream c)\<rparr>)"

fun consume :: "RequiemResponse \<Rightarrow> stream_event list \<Rightarrow> consumer \<Rightarrow> consumer" where
  "consume r [] c = c"
| "consume r (ev # evs) c = consume r evs (on_stream r ev c)"

text \<open>
  \<^verbatim>\<open>requestBody(options)\<close>, an \<^verbatim>\<open>async\<close> function: what \<^verbatim>\<open>await request(options)\<close>
  throws rejects its promise (both fields of the state then hold that failure);
  while \<^verbatim>\<open>request\<close> is pending, so is it. The result is the state of the consumer
  at the end of the response's stream.
\<close>

definition requestBody ::
  "build \<Rightarrow> env \<Rightarrow> RequiemOptions \<Rightarrow> heap \<Rightarrow> RequiemRequest list
   \<Rightarrow> heap \<times> RequiemRequest list \<times> consumer" where
  "requestBody b env options h log =
     (case request b env options h log of
        (h', log', Inl e) \<Rightarrow>
          (h', log', \<lparr>buffers = [], upstream = Rejected e, out = Rejected e\<rparr>)
      | (h', log', Inr p) \<Rightarrow>
          (case p of
             Pending \<Rightarrow> (h', log', \<lparr>buffers = [], upstream = Pending, out = Pending\<rparr>)
           | Rejected e \<Rightarrow> (h', log', \<lparr>buffers = [], upstream = Rejected e, out = Rejected e\<rparr>)
           | Resolved r \<Rightarrow>
               (h', log', consume r (stream r) \<lparr>buffers = [], upstream = p, out = Pending\<rparr>)))"

subsection \<open>A small server, for the worked examples\<close>

text \<open>
  The routes of the repository's test server that the examples use: three
  redirects in a row that end at a page with status 200, a redirect whose
  \<^verbatim>\<open>Location\<close> does not parse, a page with status 500, a request that times out,
  and a connection reset for anything else; besides, a redirect from the host
  \<^verbatim>\<open>h\<close> to the host \<^verbatim>\<open>g\<close>, which redirects to a path of its own, and a redirect
  to an \<^verbatim>\<open>ftp\<close> URL. A \<^verbatim>\<open>Location\<close> that starts with a slash resolves against the
  origin of the base (its first eight characters, as in \<^verbatim>\<open>http://h\<close>); an absolute
  \<^verbatim>\<open>http\<close> or \<^verbatim>\<open>ftp\<close> URL resolves to itself, except the malformed \<^verbatim>\<open>http://[\<close>;
  nothing else resolves. The request functions of \<^verbatim>\<open>http\<close> and \<^verbatim>\<open>https\<close> throw on a
  URL of another protocol.
\<close>

definition ex_redirect :: "string \<Rightarrow> IncomingMessage" where
  "ex_redirect loc = \<lparr>statusCode = Some 302, headers = [(''location'', loc)], stream = []\<rparr>"

definition ex_page :: "int \<Rightarrow> IncomingMessage" where
  "ex_page c = \<lparr>statusCode = Some c, headers = [], stream = [Data ''hello '', Data ''world'', End]\<rparr>"

text \<open>A page whose body breaks off: a chunk, then an error of the stream.\<close>

definition ex_cut :: IncomingMessage where
  "ex_cut = \<lparr>statusCode = Some 200, headers = [], stream = [Data ''he'', StreamError ''ECONNRESET'']\<rparr>"

definition ex_transport :: "RequiemRequest list \<Rightarrow> RequiemRequest \<Rightarrow> event list" where
  "ex_transport log rq =
     (let u = req_requestedUrl rq in
      if u = ''http://h/r3'' then [EvResponse (ex_redirect ''/r2'')]
      else if u = ''http://h/r2'' then [EvResponse (ex_redirect ''/r1'')]
      else if u = ''http://h/r1'' then [EvResponse (ex_redirect ''/200'')]
      else if u = ''http://h/bad'' then [EvResponse (ex_redirect ''http://['')]
      else if u = ''http://h/200'' then [EvResponse (ex_page 200)]
      else if u = ''http://h/500'' then [EvResponse (ex_page 500)]
      else if u = ''http://h/cut'' then [EvResponse ex_cut]
      else if u = ''http://h/slow'' then [EvTimeout]
      else if u = ''http://h/a'' then [EvResponse (ex_redirect ''http://g/b'')]
      else if u = ''http://g/b'' then [EvResponse (ex_redirect ''/c'')]
      else if u = ''http://g/c'' then [EvResponse (ex_page 200)]
      else if u = ''http://h/f'' then [EvResponse (ex_redirect ''ftp://h/x'')]
      else [EvError ''ECONNRESET''])"

definition ex_env :: env where
  "ex_env =
     \<lparr>url_parse = (\<lambda>s. if take 7 s = ''http://'' \<or> take 8 s = ''https://'' \<or>
                           take 6 s = ''ftp://'' then Some s else None),
      url_resolve = (\<lambda>loc base. case base of
                                   None \<Rightarrow> None
                                 | Some bs \<Rightarrow>
                                     if take 1 loc = ''/'' then Some (take 8 bs @ loc)
                                     else if loc \<noteq> ''http://['' \<and>
                                             (take 7 loc = ''http://'' \<or> take 6 loc = ''ftp://'')
                                     then Some loc
                                     else None),
      url_set_port = (\<lambda>p u. u @ '':'' @ p),
      url_set_pathname = (\<lambda>p u. u @ p),
      lib_request = (\<lambda>secure u httpOptions.
                       if take 5 u = ''http:'' \<or> take 6 u = ''https:'' then None
                       else Some ''ERR_INVALID_PROTOCOL''),
      json_stringify = (\<lambda>v. case v of
                               JStr t \<Rightarrow> Inr (''\"'' @ t @ ''\"'')
                             | JNull \<Rightarrow> Inr ''null''
                             | _ \<Rightarrow> Inl (Raw ''TypeError'')),
      transport = ex_transport\<rparr>"

definition ex_options :: "string \<Rightarrow> options" where
  "ex_options u = empty_options\<lparr>opt_url := Some u\<rparr>"

definition ex_response :: "IncomingMessage \<Rightarrow> string \<Rightarrow> RequiemResponse" where
  "ex_response r u = assign_requestedUrl r u"

subsection \<open>Invariants of a request in flight\<close>

text \<open>
  The counter of the \<^verbatim>\<open>abort\<close> listener's calls of \<^verbatim>\<open>reject\<close> follows the flag
  \<^verbatim>\<open>rejected\<close>.
\<close>

definition abort_inv :: "flight \<Rightarrow> bool" where
  "abort_inv st = (abortRejects st = (if rejected st then 1 else 0))"

text \<open>
  While the promise is pending, the \<^verbatim>\<open>abort\<close> listener has not run, the request is
  not aborted and no \<^verbatim>\<open>timeout\<close> has been seen.
\<close>

definition pending_inv :: "flight \<Rightarrow> bool" where
  "pending_inv st = (settled st = Pending \<longrightarrow> \<not> rejected st \<and> \<not> aborted st \<and> \<not> timedOut st)"

text \<open>
  A failure cites the URL \<open>u\<close> and the maximum \<open>m\<close>: if it is a
  \<^verbatim>\<open>TooManyRedirects\<close> error, its message is the one for \<open>u\<close> and \<open>m\<close>, and it
  carries a response and no request.
\<close>

definition cites :: "string \<Rightarrow> int \<Rightarrow> failure \<Rightarrow> bool" where
  "cites u m e =
     (case e of
        Raw x \<Rightarrow> True
      | Requiem err \<Rightarrow>
          if code err = TooManyRedirects
          then message err = too_many_message [u] m \<and> req err = None \<and> res err \<noteq> None
          else True)"

section \<open>Properties\<close>

subsection \<open>Promises and the event wiring\<close>

lemma resolve_simps [simp]:
  "resolve v Pending = Resolved v" "resolve v (Resolved w) = Resolved w"
  "resolve v (Rejected e) = Rejected e"
  by (simp_all add: resolve_def)

lemma reject_simps [simp]:
  "reject e Pending = Rejected e" "reject e (Resolved w) = Resolved w"
  "reject e (Rejected e') = Rejected e'"
  by (simp_all add: reject_def)

lemma settle_with_simps [simp]:
  "settle_with Pending p = p" "settle_with (Resolved v) p = resolve v p"
  "settle_with (Rejected e) p = reject e p"
  by (simp_all add: settle_with_def)

lemma reject_settled: "p \<noteq> Pending \<Longrightarrow> reject e p = p"
  by (cases p) simp_all

lemma resolve_settled: "p \<noteq> Pending \<Longrightarrow> resolve v p = p"
  by (cases p) simp_all

lemma settle_with_settled: "p \<noteq> Pending \<Longrightarrow> settle_with q p = p"
  by (cases q) (simp_all add: reject_settled resolve_settled)

lemma on_abort_settled: "settled st \<noteq> Pending \<Longrightarrow> settled (on_abort rq options st) = settled st"
  by (simp add: on_abort_def reject_settled)

lemma dispatch_settled:
  "settled st \<noteq> Pending \<Longrightarrow> settled (dispatch h rq options ev st) = settled st"
  by (cases ev)
     (simp_all add: dispatch_def on_response_def on_error_def on_timeout_def req_abort_def
        on_abort_settled Let_def reject_settled settle_with_settled split: prod.splits)

lemma run_events_settled:
  "settled st \<noteq> Pending \<Longrightarrow> settled (run_events h rq options evs st) = settled st"
  by (induction evs arbitrary: st) (simp_all add: dispatch_settled)

lemma followRedirects_off:
  "redirects_off b options \<Longrightarrow> followRedirects b env urls r options depth log = (log, Resolved r)"
  by (simp add: followRedirects.simps)

lemma followRedirects_too_deep:
  "\<not> redirects_off b options \<Longrightarrow> maxDepth b options < int depth \<Longrightarrow>
   followRedirects b env urls r options depth log =
     (log, Rejected (RequiemError_new TooManyRedirects
              (too_many_message urls (maxDepth b options)) None (Some r)))"
  by (simp add: followRedirects.simps)

lemma followRedirects_final:
  "\<not> redirects_off b options \<Longrightarrow> int depth \<le> maxDepth b options \<Longrightarrow> not_a_redirect r \<Longrightarrow>
   followRedirects b env urls r options depth log = (log, Resolved r)"
  by (simp add: followRedirects.simps)

lemma followRedirects_invalid:
  "\<not> redirects_off b options \<Longrightarrow> int depth \<le> maxDepth b options \<Longrightarrow> \<not> not_a_redirect r \<Longrightarrow>
   url_resolve env (the (location r)) (last_url urls) = None \<Longrightarrow>
   followRedirects b env urls r options depth log =
     (log, Rejected (RequiemError_new InvalidRedirectUrl
              (''Invalid redirect URL: '' @ the (location r)) None (Some r)))"
  by (simp add: followRedirects.simps)

lemma followRedirects_hop:
  "\<not> redirects_off b options \<Longrightarrow> int depth \<le> maxDepth b options \<Longrightarrow> \<not> not_a_redirect r \<Longrightarrow>
   url_resolve env (the (location r)) (last_url urls) = Some newUrl \<Longrightarrow>
   createRequest env (newOptions options newUrl) = (opts', Inr rq) \<Longrightarrow>
   followRedirects b env urls r options depth log =
     (let st = run_events
                 (\<lambda>r' log'. followRedirects b env (urls @ [newUrl])
                               (assign_requestedUrl r' newUrl) options (Suc depth) log')
                 (rq\<lparr>ended := True\<rparr>) opts' (transport env log (rq\<lparr>ended := True\<rparr>))
                 (new_flight (log @ [rq\<lparr>ended := True\<rparr>]))
      in (issued st, settled st))"
  by (subst followRedirects.simps) (simp add: Let_def)

lemma followRedirects_no_request:
  "\<not> redirects_off b options \<Longrightarrow> int depth \<le> maxDepth b options \<Longrightarrow> \<not> not_a_redirect r \<Longrightarrow>
   url_resolve env (the (location r)) (last_url urls) = Some newUrl \<Longrightarrow>
   createRequest env (newOptions options newUrl) = (opts', Inl e) \<Longrightarrow>
   followRedirects b env urls r options depth log = (log, Rejected e)"
  by (simp add: followRedirects.simps)

text \<open>A hop only adds to the list of the requests issued.\<close>

lemma dispatch_issued:
  assumes "\<forall>r l. \<exists>ext. fst (h r l) = l @ ext"
  shows "\<exists>ext. issued (dispatch h rq options ev st) = issued st @ ext"
proof (cases ev)
  case (EvResponse r)
  obtain ext where "fst (h r (issued st)) = issued st @ ext" using assms by blast
  then show ?thesis using EvResponse
    by (auto simp: dispatch_def on_response_def split: prod.splits)
qed (simp_all add: dispatch_def on_error_def on_timeout_def req_abort_def on_abort_def Let_def)

lemma run_events_issued:
  assumes "\<forall>r l. \<exists>ext. fst (h r l) = l @ ext"
  shows "\<exists>ext. issued (run_events h rq options evs st) = issued st @ ext"
proof (induction evs arbitrary: st)
  case Nil
  then show ?case by simp
next
  case (Cons ev evs)
  obtain e1 where e1: "issued (dispatch h rq options ev st) = issued st @ e1"
    using dispatch_issued [OF assms] by blast
  obtain e2 where "issued (run_events h rq options evs (dispatch h rq options ev st))
                     = issued (dispatch h rq options ev st) @ e2"
    using Cons.IH by blast
  then show ?case using e1 by simp
qed

lemma followRedirects_log:
  "\<exists>ext. fst (followRedirects b env urls r options depth log) = log @ ext"
proof (induction b env urls r options depth log rule: followRedirects.induct)
  case (1 b env urls r options depth log)
  show ?case
  proof (cases "redirects_off b options \<or> maxDepth b options < int depth \<or> not_a_redirect r")
    case True
    then show ?thesis by (auto simp: followRedirects.simps)
  next
    case False
    then have c: "\<not> redirects_off b options" "int depth \<le> maxDepth b options" "\<not> not_a_redirect r"
      by auto
    show ?thesis
    proof (cases "url_resolve env (the (location r)) (last_url urls)")
      case None
      then show ?thesis using c by (simp add: followRedirects_invalid)
    next
      case (Some newUrl)
      obtain opts' res where cr: "createRequest env (newOptions options newUrl) = (opts', res)"
        by (cases "createRequest env (newOptions options newUrl)")
      show ?thesis
      proof (cases res)
        case (Inl e)
        then show ?thesis using c Some cr by (simp add: followRedirects_no_request)
      next
        case (Inr rq)
        let ?rq = "rq\<lparr>ended := True\<rparr>"
        have ih: "\<forall>r' l. \<exists>ext. fst (followRedirects b env (urls @ [newUrl])
                    (assign_requestedUrl r' newUrl) options (Suc depth) l) = l @ ext"
          using "1.IH" c Some cr Inr by (simp add: not_less)
        obtain ext where "issued (run_events
                 (\<lambda>r' log'. followRedirects b env (urls @ [newUrl])
                               (assign_requestedUrl r' newUrl) options (Suc depth) log')
                 ?rq opts' (transport env log ?rq) (new_flight (log @ [?rq])))
              = issued (new_flight (log @ [?rq])) @ ext"
          using run_events_issued [where h = "\<lambda>r' log'. followRedirects b env (urls @ [newUrl])
                               (assign_requestedUrl r' newUrl) options (Suc depth) log'", OF ih]
          by blast
        then show ?thesis using c Some cr Inr
          by (simp add: followRedirects_hop Let_def new_flight_def)
      qed
    qed
  qed
qed

subsection \<open>Facts about the resolver and the examples\<close>

lemma not_a_redirect_cases:
  "statusCode r = None \<or> (\<exists>c. statusCode r = Some c \<and> (c < 300 \<or> 400 \<le> c)) \<or> location r = None
   \<Longrightarrow> not_a_redirect r"
  by (auto simp: not_a_redirect_def truthy_str_def split: option.splits)

lemma ex_page_response [simp]:
  "statusCode (ex_response (ex_page c) u) = Some c"
  "location (ex_response (ex_page c) u) = None"
  "requestedUrl (ex_response (ex_page c) u) = u"
  by (simp_all add: ex_response_def ex_page_def assign_requestedUrl_def location_def
        IncomingMessage.defs RequiemResponse.defs)

lemma ex_redirect_response [simp]:
  "statusCode (ex_response (ex_redirect l) u) = Some 302"
  "location (ex_response (ex_redirect l) u) = Some l"
  "requestedUrl (ex_response (ex_redirect l) u) = u"
  by (simp_all add: ex_response_def ex_redirect_def assign_requestedUrl_def location_def
        IncomingMessage.defs RequiemResponse.defs)

lemma maxDepth_ex [simp]:
  "maxDepth b (ex_options u) = 5"
  "maxDepth IndexJs ((ex_options u)\<lparr>opt_followRedirects := FollowNum n\<rparr>) = n"
  "maxDepth IndexTs ((ex_options u)\<lparr>opt_followRedirects := FollowNum 0\<rparr>) = 5"
  "n \<noteq> 0 \<Longrightarrow> maxDepth IndexTs ((ex_options u)\<lparr>opt_followRedirects := FollowNum n\<rparr>) = n"
  by (simp_all add: maxDepth_def ex_options_def empty_options_def defaultFollowRedirects_def
      split: build.splits)

lemma redirects_off_ex [simp]:
  "redirects_off b (ex_options u) = False"
  "redirects_off b ((ex_options u)\<lparr>opt_followRedirects := FollowNum n\<rparr>) = False"
  "redirects_off IndexJs ((ex_options u)\<lparr>opt_followRedirects := FollowFalse\<rparr>) = True"
  by (simp_all add: redirects_off_def ex_options_def empty_options_def split: build.splits)

lemma string_of_nat_digit [simp]: "n < 10 \<Longrightarrow> string_of_nat n = [digit n]"
  by (subst string_of_nat.simps) simp

lemmas ex_defs = ex_env_def ex_transport_def ex_options_def empty_options_def ex_response_def
  ex_page_def ex_redirect_def ex_cut_def

lemmas model_defs = request_def getObjectionsObject_def createRequest_heap_def createRequest_def
  sendRequest_def write_body_def responseHandler_def new_flight_def dispatch_def on_response_def
  on_error_def on_timeout_def on_abort_def req_abort_def reqOptions_def or_str_def is_https_def
  followRedirects.simps redirects_off_def maxDepth_def defaultFollowRedirects_def not_a_redirect_def
  truthy_str_def truthy_num_def location_def assign_requestedUrl_def newOptions_def last_url_def
  await_then_def validate_def RequiemError_new_def too_many_message_def first_url_def
  string_of_int_def digit_def timeout_message_def invalid_status_message_def status_text_def
  IncomingMessage.defs RequiemResponse.defs Let_def

lemma createRequest_newOptions:
  "createRequest env (newOptions options newUrl) =
     (newOptions options newUrl,
      case url_parse env newUrl of
        None \<Rightarrow> Inl (RequiemError_new InvalidUrl ''URL could not be formatted properly'' None None)
      | Some u \<Rightarrow>
          (case lib_request env (is_https u) u (reqOptions (newOptions options newUrl)) of
             Some e \<Rightarrow> Inl (Raw e)
           | None \<Rightarrow>
               Inr \<lparr>req_requestedUrl = u, httpOptions = reqOptions (newOptions options newUrl),
                    secure = is_https u, setHeaders = [], written = [], ended = False\<rparr>))"
  by (simp add: createRequest_def newOptions_def or_str_def Let_def split: option.splits)

lemma redirect_cases:
  "statusCode r = Some c \<Longrightarrow> 300 \<le> c \<Longrightarrow> c < 400 \<Longrightarrow> location r = Some loc \<Longrightarrow> loc \<noteq> [] \<Longrightarrow>
   \<not> not_a_redirect r"
  by (simp add: not_a_redirect_def truthy_str_def)

lemma last_url_nonempty: "urls \<noteq> [] \<Longrightarrow> last_url urls = Some (last urls)"
  by (simp add: last_url_def)

lemma dispatch_issued_same:
  assumes "\<forall>r l. fst (h r l) = l"
  shows "issued (dispatch h rq options ev st) = issued st"
proof (cases ev)
  case (EvResponse r)
  have "fst (h r (issued st)) = issued st" using assms by blast
  then show ?thesis using EvResponse
    by (auto simp: dispatch_def on_response_def split: prod.splits)
qed (simp_all add: dispatch_def on_error_def on_timeout_def req_abort_def on_abort_def Let_def)

lemma run_events_issued_same:
  assumes "\<forall>r l. fst (h r l) = l"
  shows "issued (run_events h rq options evs st) = issued st"
  by (induction evs arbitrary: st) (simp_all add: dispatch_issued_same [OF assms])

subsection \<open>The redirect limit\<close>

text \<open>
  A \<^verbatim>\<open>TooManyRedirects\<close> failure of the resolver, from whatever depth of the
  recursion it comes, cites the first URL of the chain the resolver was given.
\<close>

lemma cites_simps [simp]:
  "cites u m (Raw x)"
  "cites u m (RequiemError_new Timeout msg a b)"
  "cites u m (RequiemError_new RequestAbort msg a b)"
  "cites u m (RequiemError_new InvalidRedirectUrl msg a b)"
  "cites u m (RequiemError_new InvalidUrl msg a b)"
  by (simp_all add: cites_def RequiemError_new_def)

lemma dispatch_cites:
  assumes "\<forall>r l e. snd (h r l) = Rejected e \<longrightarrow> cites u m e"
    and "\<forall>e. settled st = Rejected e \<longrightarrow> cites u m e"
  shows "\<forall>e. settled (dispatch h rq options ev st) = Rejected e \<longrightarrow> cites u m e"
proof (cases ev)
  case (EvResponse r)
  obtain l p where hp: "h r (issued st) = (l, p)" by (cases "h r (issued st)")
  then have "\<forall>e. p = Rejected e \<longrightarrow> cites u m e"
    using assms(1) by (metis snd_conv)
  then show ?thesis using EvResponse hp assms(2)
    by (cases p; cases "settled st") (simp_all add: dispatch_def on_response_def)
next
  case (EvError x)
  then show ?thesis using assms(2)
    by (cases "settled st") (simp_all add: dispatch_def on_error_def)
next
  case EvTimeout
  then show ?thesis using assms(2)
    by (cases "settled st")
       (simp_all add: dispatch_def on_timeout_def req_abort_def on_abort_def Let_def)
next
  case EvAbort
  then show ?thesis using assms(2)
    by (cases "settled st") (simp_all add: dispatch_def on_abort_def)
qed

lemma run_events_cites:
  assumes "\<forall>r l e. snd (h r l) = Rejected e \<longrightarrow> cites u m e"
  shows "\<forall>e. settled st = Rejected e \<longrightarrow> cites u m e \<Longrightarrow>
         \<forall>e. settled (run_events h rq options evs st) = Rejected e \<longrightarrow> cites u m e"
proof (induction evs arbitrary: st)
  case Nil
  then show ?case by simp
next
  case (Cons ev evs)
  have "\<forall>e. settled (dispatch h rq options ev st) = Rejected e \<longrightarrow> cites u m e"
    using assms Cons.prems by (rule dispatch_cites)
  then show ?case using Cons.IH by simp
qed

lemma first_url_append: "urls \<noteq> [] \<Longrightarrow> first_url (urls @ xs) = hd urls"
  by (cases urls) (simp_all add: first_url_def)

lemma followRedirects_cites:
  "urls \<noteq> [] \<Longrightarrow>
   \<forall>e. snd (followRedirects b env urls r options depth log) = Rejected e \<longrightarrow>
       cites (hd urls) (maxDepth b options) e"
proof (induction b env urls r options depth log rule: followRedirects.induct)
  case (1 b env urls r options depth log)
  have fu: "too_many_message urls (maxDepth b options) = too_many_message [hd urls] (maxDepth b options)"
    using "1.prems" by (cases urls) (simp_all add: too_many_message_def first_url_def)
  show ?case
  proof (cases "redirects_off b options")
    case True
    then show ?thesis by (simp add: followRedirects_off)
  next
    case off: False
    show ?thesis
    proof (cases "maxDepth b options < int depth")
      case True
      then show ?thesis using off fu
        by (simp add: followRedirects_too_deep cites_def RequiemError_new_def)
    next
      case False
      then have le: "int depth \<le> maxDepth b options" by simp
      show ?thesis
      proof (cases "not_a_redirect r")
        case True
        then show ?thesis using off le by (simp add: followRedirects_final)
      next
        case nr: False
        show ?thesis
        proof (cases "url_resolve env (the (location r)) (last_url urls)")
          case None
          then show ?thesis using off le nr by (simp add: followRedirects_invalid)
        next
          case (Some newUrl)
          obtain opts' res where cr: "createRequest env (newOptions options newUrl) = (opts', res)"
            by (cases "createRequest env (newOptions options newUrl)")
          show ?thesis
          proof (cases res)
            case (Inl e)
            then have "e = RequiemError_new InvalidUrl ''URL could not be formatted properly'' None None
                       \<or> (\<exists>x. e = Raw x)"
              using cr by (auto simp: createRequest_def Let_def split: option.splits)
            then show ?thesis using off le nr Some cr Inl
              by (auto simp: followRedirects_no_request)
          next
            case (Inr rq)
            let ?rq = "rq\<lparr>ended := True\<rparr>"
            let ?h = "\<lambda>r' log'. followRedirects b env (urls @ [newUrl])
                               (assign_requestedUrl r' newUrl) options (Suc depth) log'"
            have ih: "\<forall>r' l e. snd (?h r' l) = Rejected e \<longrightarrow>
                        cites (hd urls) (maxDepth b options) e"
              using "1.IH" off False nr Some cr Inr "1.prems" by simp
            have "\<forall>e. settled (run_events ?h ?rq opts' (transport env log ?rq)
                          (new_flight (log @ [?rq]))) = Rejected e \<longrightarrow>
                      cites (hd urls) (maxDepth b options) e"
              using ih by (rule run_events_cites) (simp add: new_flight_def)
            then show ?thesis using off le nr Some cr Inr
              by (simp add: followRedirects_hop Let_def)
          qed
        qed
      qed
    qed
  qed
qed

text \<open>
  C1. When the depth exceeds the configured maximum \<open>n\<close> (5 when
  \<^verbatim>\<open>followRedirects\<close> is not set), the resolver fails with \<^verbatim>\<open>TooManyRedirects\<close>;
  the message cites the first URL of the chain and \<open>n\<close>, and the error carries
  the response just evaluated. This holds in \<^verbatim>\<open>index.js\<close> for every \<open>n\<close>, and in
  \<^verbatim>\<open>index.ts\<close> for every \<open>n\<close> but 0: there the maximum is
  \<^verbatim>\<open>options.followRedirects || defaultFollowRedirects\<close>, so a configured 0 is read
  as the default 5. In both builds, a \<^verbatim>\<open>TooManyRedirects\<close> failure that comes out
  of the resolver, from this depth or from a later hop, cites the first URL of the
  chain and the maximum the resolver computes. The last two parts run the call
  \<^verbatim>\<open>request({url: "http://h/r1", followRedirects: 0})\<close> against the example server,
  where \<^verbatim>\<open>/r1\<close> redirects to \<^verbatim>\<open>/200\<close>: the response of \<^verbatim>\<open>/200\<close> arrives at depth
  1, which exceeds 0. The build \<^verbatim>\<open>index.ts\<close> resolves with that response; the
  build \<^verbatim>\<open>index.js\<close> fails with \<^verbatim>\<open>TooManyRedirects\<close>.
\<close>

theorem C1_too_many_redirects:
  "(\<forall>n. (opt_followRedirects options = FollowNum n \<or>
         opt_followRedirects options = FollowUnset \<and> n = 5) \<and> n < int depth \<longrightarrow>
      followRedirects IndexJs env (u # us) r options depth log =
        (log, Rejected (Requiem \<lparr>code = TooManyRedirects,
            message = ''\"'' @ u @ ''\" redirected too many times (max redirects: '' @
                      string_of_int n @ '')'',
            req = None, res = Some r\<rparr>))) \<and>
   (\<forall>n. (opt_followRedirects options = FollowNum n \<and> n \<noteq> 0 \<or>
         opt_followRedirects options = FollowUnset \<and> n = 5) \<and> n < int depth \<longrightarrow>
      followRedirects IndexTs env (u # us) r options depth log =
        (log, Rejected (Requiem \<lparr>code = TooManyRedirects,
            message = ''\"'' @ u @ ''\" redirected too many times (max redirects: '' @
                      string_of_int n @ '')'',
            req = None, res = Some r\<rparr>))) \<and>
   (\<forall>log' err. followRedirects b env (u # us) r options depth log = (log', Rejected (Requiem err)) \<and>
         code err = TooManyRedirects \<longrightarrow>
      message err = ''\"'' @ u @ ''\" redirected too many times (max redirects: '' @
                    string_of_int (maxDepth b options) @ '')'' \<and>
      req err = None \<and> res err \<noteq> None) \<and>
   snd (snd (request IndexTs ex_env (Obj 0)
      [(ex_options ''http://h/r1'')\<lparr>opt_followRedirects := FollowNum 0\<rparr>] [])) =
     Inr (Resolved (ex_response (ex_page 200) ''http://h/200'')) \<and>
   snd (snd (request IndexJs ex_env (Obj 0)
      [(ex_options ''http://h/r1'')\<lparr>opt_followRedirects := FollowNum 0\<rparr>] [])) =
     Inr (Rejected (Requiem \<lparr>code = TooManyRedirects,
            message = ''\"http://h/r1\" redirected too many times (max redirects: 0)'',
            req = None, res = Some (ex_response (ex_page 200) ''http://h/200'')\<rparr>))"
proof -
  have c1: "\<forall>n. (opt_followRedirects options = FollowNum n \<or>
         opt_followRedirects options = FollowUnset \<and> n = 5) \<and> n < int depth \<longrightarrow>
      followRedirects IndexJs env (u # us) r options depth log =
        (log, Rejected (Requiem \<lparr>code = TooManyRedirects,
            message = ''\"'' @ u @ ''\" redirected too many times (max redirects: '' @
                      string_of_int n @ '')'',
            req = None, res = Some r\<rparr>))"
  proof (intro allI impI)
    fix n
    assume a: "(opt_followRedirects options = FollowNum n \<or>
         opt_followRedirects options = FollowUnset \<and> n = 5) \<and> n < int depth"
    then have "\<not> redirects_off IndexJs options" "maxDepth IndexJs options = n"
      by (auto simp: redirects_off_def maxDepth_def defaultFollowRedirects_def)
    then show "followRedirects IndexJs env (u # us) r options depth log =
        (log, Rejected (Requiem \<lparr>code = TooManyRedirects,
            message = ''\"'' @ u @ ''\" redirected too many times (max redirects: '' @
                      string_of_int n @ '')'',
            req = None, res = Some r\<rparr>))"
      using a
      by (simp add: followRedirects_too_deep RequiemError_new_def too_many_message_def
            first_url_def)
  qed
  have c2: "\<forall>n. (opt_followRedirects options = FollowNum n \<and> n \<noteq> 0 \<or>
         opt_followRedirects options = FollowUnset \<and> n = 5) \<and> n < int depth \<longrightarrow>
      followRedirects IndexTs env (u # us) r options depth log =
        (log, Rejected (Requiem \<lparr>code = TooManyRedirects,
            message = ''\"'' @ u @ ''\" redirected too many times (max redirects: '' @
                      string_of_int n @ '')'',
            req = None, res = Some r\<rparr>))"
  proof (intro allI impI)
    fix n
    assume a: "(opt_followRedirects options = FollowNum n \<and> n \<noteq> 0 \<or>
         opt_followRedirects options = FollowUnset \<and> n = 5) \<and> n < int depth"
    then have "\<not> redirects_off IndexTs options" "maxDepth IndexTs options = n"
      by (auto simp: redirects_off_def maxDepth_def defaultFollowRedirects_def)
    then show "followRedirects IndexTs env (u # us) r options depth log =
        (log, Rejected (Requiem \<lparr>code = TooManyRedirects,
            message = ''\"'' @ u @ ''\" redirected too many times (max redirects: '' @
                      string_of_int n @ '')'',
            req = None, res = Some r\<rparr>))"
      using a
      by (simp add: followRedirects_too_deep RequiemError_new_def too_many_message_def
            first_url_def)
  qed
  have c3: "\<forall>log' err. followRedirects b env (u # us) r options depth log =
                (log', Rejected (Requiem err)) \<and> code err = TooManyRedirects \<longrightarrow>
      message err = ''\"'' @ u @ ''\" redirected too many times (max redirects: '' @
                    string_of_int (maxDepth b options) @ '')'' \<and>
      req err = None \<and> res err \<noteq> None"
  proof (intro allI impI)
    fix log' err
    assume a: "followRedirects b env (u # us) r options depth log =
                 (log', Rejected (Requiem err)) \<and> code err = TooManyRedirects"
    have "cites (hd (u # us)) (maxDepth b options) (Requiem err)"
      using followRedirects_cites [of "u # us" b env r options depth log] a by simp
    then show "message err = ''\"'' @ u @ ''\" redirected too many times (max redirects: '' @
                    string_of_int (maxDepth b options) @ '')'' \<and>
      req err = None \<and> res err \<noteq> None"
      using a by (simp add: cites_def too_many_message_def first_url_def)
  qed
  have c4: "snd (snd (request IndexTs ex_env (Obj 0)
      [(ex_options ''http://h/r1'')\<lparr>opt_followRedirects := FollowNum 0\<rparr>] [])) =
     Inr (Resolved (ex_response (ex_page 200) ''http://h/200''))"
    by (simp add: ex_defs model_defs)
  have c5: "snd (snd (request IndexJs ex_env (Obj 0)
      [(ex_options ''http://h/r1'')\<lparr>opt_followRedirects := FollowNum 0\<rparr>] [])) =
     Inr (Rejected (Requiem \<lparr>code = TooManyRedirects,
            message = ''\"http://h/r1\" redirected too many times (max redirects: 0)'',
            req = None, res = Some (ex_response (ex_page 200) ''http://h/200'')\<rparr>))"
    by (simp add: ex_defs model_defs)
  show ?thesis
    by (rule conjI [OF c1 conjI [OF c2 conjI [OF c3 conjI [OF c4 c5]]]])
qed

theorem C1_too_many_redirects_witness:
  "opt_followRedirects ((ex_options ''http://h/r3'')\<lparr>opt_followRedirects := FollowNum 2\<rparr>) = FollowNum 2 \<and>
   (2::int) < int 3 \<and>
   followRedirects IndexTs ex_env [''http://h/r3'', ''http://h/r2'', ''http://h/r1'', ''http://h/200'']
     (ex_response (ex_page 200) ''http://h/200'')
     ((ex_options ''http://h/r3'')\<lparr>opt_followRedirects := FollowNum 2\<rparr>) 3 [] =
   ([], Rejected (Requiem \<lparr>code = TooManyRedirects,
          message = ''\"http://h/r3\" redirected too many times (max redirects: 2)'',
          req = None, res = Some (ex_response (ex_page 200) ''http://h/200'')\<rparr>))"
proof -
  let ?o = "(ex_options ''http://h/r3'')\<lparr>opt_followRedirects := FollowNum 2\<rparr>"
  have a: "(opt_followRedirects ?o = FollowNum 2 \<and> (2::int) \<noteq> 0 \<or>
            opt_followRedirects ?o = FollowUnset \<and> (2::int) = 5) \<and> (2::int) < int 3"
    by simp
  have s: "string_of_int 2 = ''2''" by (simp add: string_of_int_def digit_def)
  show ?thesis
    using C1_too_many_redirects [of ?o 3 ex_env "''http://h/r3''"
            "[''http://h/r2'', ''http://h/r1'', ''http://h/200'']"
            "ex_response (ex_page 200) ''http://h/200''" "[]", THEN conjunct2, THEN conjunct1,
            rule_format, OF a] s
    by simp
qed

text \<open>
  C2. A response that is not a redirect (no status code, a status outside
  [300,400), or no \<^verbatim>\<open>Location\<close> header) is returned unchanged, and no request is
  issued, at every depth up to the maximum, and at every depth when \<^verbatim>\<open>index.js\<close>
  is given \<^verbatim>\<open>followRedirects: false\<close>. Beyond the maximum the depth check comes
  first, see the counterexample.
\<close>

theorem C2_non_redirect_returned:
  assumes "statusCode r = None \<or> (\<exists>c. statusCode r = Some c \<and> (c < 300 \<or> 400 \<le> c))
           \<or> location r = None"
    and "redirects_off b options \<or> int depth \<le> maxDepth b options"
  shows "followRedirects b env urls r options depth log = (log, Resolved r)"
proof (cases "redirects_off b options")
  case True
  then show ?thesis by (rule followRedirects_off)
next
  case False
  with assms(2) have "int depth \<le> maxDepth b options" by simp
  with False not_a_redirect_cases [OF assms(1)] show ?thesis
    by (simp add: followRedirects_final)
qed

theorem C2_non_redirect_returned_witness:
  "statusCode (ex_response (ex_page 200) ''http://h/200'') = Some 200 \<and>
   int 5 \<le> maxDepth IndexTs (ex_options ''http://h/200'') \<and>
   followRedirects IndexTs ex_env [''http://h/200''] (ex_response (ex_page 200) ''http://h/200'')
     (ex_options ''http://h/200'') 5 [] =
   ([], Resolved (ex_response (ex_page 200) ''http://h/200''))"
  using C2_non_redirect_returned [of "ex_response (ex_page 200) ''http://h/200''" IndexTs
          "ex_options ''http://h/200''" 5 ex_env "[''http://h/200'']" "[]"]
  by simp

text \<open>
  Counterexample to "at every depth": the call
  \<^verbatim>\<open>request({url: "http://h/r3", followRedirects: 2})\<close> reaches the page with
  status 200 after three hops, at depth 3, and the resolver does not return it
  but fails with \<^verbatim>\<open>TooManyRedirects\<close>; likewise at depth 6 with the default
  maximum 5.
\<close>

theorem C2_counterexample:
  "statusCode (ex_response (ex_page 200) ''http://h/200'') = Some 200 \<and>
   snd (snd (request IndexTs ex_env (Obj 0)
      [(ex_options ''http://h/r3'')\<lparr>opt_followRedirects := FollowNum 2\<rparr>] [])) =
     Inr (Rejected (Requiem \<lparr>code = TooManyRedirects,
            message = ''\"http://h/r3\" redirected too many times (max redirects: 2)'',
            req = None, res = Some (ex_response (ex_page 200) ''http://h/200'')\<rparr>)) \<and>
   followRedirects IndexTs ex_env [''http://h/r1''] (ex_response (ex_page 200) ''http://h/200'')
     (ex_options ''http://h/r1'') 6 [] =
   ([], Rejected (Requiem \<lparr>code = TooManyRedirects,
          message = ''\"http://h/r1\" redirected too many times (max redirects: 5)'',
          req = None, res = Some (ex_response (ex_page 200) ''http://h/200'')\<rparr>))"
proof -
  have c1: "snd (snd (request IndexTs ex_env (Obj 0)
      [(ex_options ''http://h/r3'')\<lparr>opt_followRedirects := FollowNum 2\<rparr>] [])) =
     Inr (Rejected (Requiem \<lparr>code = TooManyRedirects,
            message = ''\"http://h/r3\" redirected too many times (max redirects: 2)'',
            req = None, res = Some (ex_response (ex_page 200) ''http://h/200'')\<rparr>))"
    by (simp add: ex_defs model_defs)
  have c2: "followRedirects IndexTs ex_env [''http://h/r1'']
     (ex_response (ex_page 200) ''http://h/200'') (ex_options ''http://h/r1'') 6 [] =
   ([], Rejected (Requiem \<lparr>code = TooManyRedirects,
          message = ''\"http://h/r1\" redirected too many times (max redirects: 5)'',
          req = None, res = Some (ex_response (ex_page 200) ''http://h/200'')\<rparr>))"
    by (simp add: followRedirects_too_deep RequiemError_new_def too_many_message_def
          first_url_def string_of_int_def digit_def)
  show ?thesis using c1 c2 by simp
qed




subsection \<open>Following a hop\<close>

lemma assign_requestedUrl_simps [simp]:
  "statusCode (assign_requestedUrl r u) = statusCode r"
  "headers (assign_requestedUrl r u) = headers r"
  "stream (assign_requestedUrl r u) = stream r"
  "requestedUrl (assign_requestedUrl r u) = u"
  "location (assign_requestedUrl r u) = map_of (headers r) ''location''"
  by (simp_all add: assign_requestedUrl_def location_def IncomingMessage.defs RequiemResponse.defs)

lemma last_url_snoc [simp]: "last_url (urls @ [u]) = Some u"
  by (simp add: last_url_def)

text \<open>A hop that is followed adds its request to the list first.\<close>

lemma followRedirects_issues:
  assumes "\<not> redirects_off b options" and "int depth \<le> maxDepth b options"
    and "\<not> not_a_redirect r"
    and "url_resolve env (the (location r)) (last_url urls) = Some newUrl"
    and "url_parse env newUrl = Some u"
    and "lib_request env (is_https u) u (reqOptions (newOptions options newUrl)) = None"
  shows "\<exists>rest. fst (followRedirects b env urls r options depth log) =
           log @ [\<lparr>req_requestedUrl = u, httpOptions = reqOptions (newOptions options newUrl),
                    secure = is_https u, setHeaders = [], written = [], ended = True\<rparr>] @ rest"
proof -
  let ?rq = "\<lparr>req_requestedUrl = u, httpOptions = reqOptions (newOptions options newUrl),
               secure = is_https u, setHeaders = [], written = [], ended = False\<rparr>"
  let ?h = "\<lambda>r' log'. followRedirects b env (urls @ [newUrl])
                               (assign_requestedUrl r' newUrl) options (Suc depth) log'"
  have cr: "createRequest env (newOptions options newUrl) = (newOptions options newUrl, Inr ?rq)"
    using assms(5,6) by (simp add: createRequest_newOptions)
  have eq: "followRedirects b env urls r options depth log =
       (let st = run_events ?h (?rq\<lparr>ended := True\<rparr>) (newOptions options newUrl)
                   (transport env log (?rq\<lparr>ended := True\<rparr>))
                   (new_flight (log @ [?rq\<lparr>ended := True\<rparr>]))
        in (issued st, settled st))"
    using followRedirects_hop [OF assms(1-4) cr] .
  have "\<forall>r' l. \<exists>ext. fst (?h r' l) = l @ ext"
    using followRedirects_log by blast
  then obtain ext where
    "issued (run_events ?h (?rq\<lparr>ended := True\<rparr>) (newOptions options newUrl)
                 (transport env log (?rq\<lparr>ended := True\<rparr>))
                 (new_flight (log @ [?rq\<lparr>ended := True\<rparr>])))
       = issued (new_flight (log @ [?rq\<lparr>ended := True\<rparr>])) @ ext"
    using run_events_issued [of ?h] by blast
  then have "fst (followRedirects b env urls r options depth log) =
               log @ [?rq\<lparr>ended := True\<rparr>] @ ext"
    using eq by (simp add: Let_def new_flight_def)
  then show ?thesis by simp
qed




text \<open>
  C5. Following a hop: the \<^verbatim>\<open>Location\<close> value is resolved against the last URL
  of the chain. When that fails, the resolver fails with \<^verbatim>\<open>InvalidRedirectUrl\<close>
  and carries the response. When it succeeds, \<^verbatim>\<open>createRequest\<close> is called for the
  resolved URL with the method \<^verbatim>\<open>GET\<close>, without \<^verbatim>\<open>host\<close>, \<^verbatim>\<open>path\<close>, \<^verbatim>\<open>port\<close> and
  \<^verbatim>\<open>protocol\<close> (and without the fields that \<^verbatim>\<open>createRequest\<close> strips), the other
  options being those of the call. If the URL does not parse again, the resolver
  fails with \<^verbatim>\<open>InvalidUrl\<close>; if \<^verbatim>\<open>lib.request\<close> throws, it fails with what was
  thrown; in both cases no request is issued. Otherwise that request is the next
  one issued, nothing is written to it and it is ended, and its events run with
  a \<^verbatim>\<open>response\<close> listener that calls the resolver at the next depth on the chain
  extended by the resolved URL. So when the response to the hop is a redirect
  again, its \<^verbatim>\<open>Location\<close> is resolved against the URL of the hop, not against the
  first URL: if that fails, the failure is \<^verbatim>\<open>InvalidRedirectUrl\<close> with the hop's
  response, and if it succeeds, the request after the hop's is the one for the
  URL so resolved.
\<close>

theorem C5_hop:
  assumes "\<not> redirects_off b options" and "int depth \<le> maxDepth b options"
    and "statusCode r = Some c" and "300 \<le> c" and "c < 400"
    and "location r = Some loc" and "loc \<noteq> []" and "urls \<noteq> []"
    and "hopts = options\<lparr>opt_host := None, opt_path := None, opt_port := None,
                         opt_protocol := None, opt_url := Some newUrl,
                         opt_method := Some ''GET'', opt_followRedirects := FollowUnset,
                         opt_throwOnErrorResponse := ThrowUnset, opt_body := None,
                         opt_bodyJson := None\<rparr>"
    and "rq1 = \<lparr>req_requestedUrl = u, httpOptions = hopts, secure = is_https u,
                 setHeaders = [], written = [], ended = True\<rparr>"
  shows
    "(url_resolve env loc (Some (last urls)) = None \<longrightarrow>
        followRedirects b env urls r options depth log =
          (log, Rejected (Requiem \<lparr>code = InvalidRedirectUrl,
                  message = ''Invalid redirect URL: '' @ loc, req = None, res = Some r\<rparr>))) \<and>
     (url_resolve env loc (Some (last urls)) = Some newUrl \<and> url_parse env newUrl = None \<longrightarrow>
        followRedirects b env urls r options depth log =
          (log, Rejected (Requiem \<lparr>code = InvalidUrl,
                  message = ''URL could not be formatted properly'', req = None, res = None\<rparr>))) \<and>
     (\<forall>e. url_resolve env loc (Some (last urls)) = Some newUrl \<and> url_parse env newUrl = Some u \<and>
          lib_request env (is_https u) u hopts = Some e \<longrightarrow>
        followRedirects b env urls r options depth log = (log, Rejected (Raw e))) \<and>
     (url_resolve env loc (Some (last urls)) = Some newUrl \<and> url_parse env newUrl = Some u \<and>
      lib_request env (is_https u) u hopts = None \<longrightarrow>
        followRedirects b env urls r options depth log =
          (let st = run_events
                      (\<lambda>r' log'. followRedirects b env (urls @ [newUrl])
                                    (assign_requestedUrl r' newUrl) options (Suc depth) log')
                      rq1 (newOptions options newUrl) (transport env log rq1)
                      (new_flight (log @ [rq1]))
           in (issued st, settled st)) \<and>
        (\<exists>rest. fst (followRedirects b env urls r options depth log) = log @ [rq1] @ rest) \<and>
        (\<forall>r' evs c' loc'.
           transport env log rq1 = EvResponse r' # evs \<and> int (Suc depth) \<le> maxDepth b options \<and>
           statusCode r' = Some c' \<and> 300 \<le> c' \<and> c' < 400 \<and>
           map_of (headers r') ''location'' = Some loc' \<and> loc' \<noteq> [] \<longrightarrow>
           (url_resolve env loc' (Some newUrl) = None \<longrightarrow>
              snd (followRedirects b env urls r options depth log) =
                Rejected (Requiem \<lparr>code = InvalidRedirectUrl,
                   message = ''Invalid redirect URL: '' @ loc', req = None,
                   res = Some (assign_requestedUrl r' newUrl)\<rparr>)) \<and>
           (\<forall>newUrl2 u2.
              url_resolve env loc' (Some newUrl) = Some newUrl2 \<and> url_parse env newUrl2 = Some u2 \<and>
              lib_request env (is_https u2) u2 (hopts\<lparr>opt_url := Some newUrl2\<rparr>) = None \<longrightarrow>
              (\<exists>rest. fst (followRedirects b env urls r options depth log) =
                 log @
                 [rq1,
                  \<lparr>req_requestedUrl = u2, httpOptions = hopts\<lparr>opt_url := Some newUrl2\<rparr>,
                    secure = is_https u2, setHeaders = [], written = [], ended = True\<rparr>] @
                 rest))))"
proof -
  let ?R = "followRedirects b env urls r options depth log"
  let ?h = "\<lambda>r' log'. followRedirects b env (urls @ [newUrl])
                               (assign_requestedUrl r' newUrl) options (Suc depth) log'"
  have nr: "\<not> not_a_redirect r" using assms(3-7) by (rule redirect_cases)
  have loc: "the (location r) = loc" using assms(6) by simp
  have lu: "last_url urls = Some (last urls)" using assms(8) by (rule last_url_nonempty)
  have ho: "hopts = reqOptions (newOptions options newUrl)"
    using assms(9) by (simp add: reqOptions_def newOptions_def)
  have c1: "url_resolve env loc (Some (last urls)) = None \<longrightarrow>
        ?R = (log, Rejected (Requiem \<lparr>code = InvalidRedirectUrl,
                  message = ''Invalid redirect URL: '' @ loc, req = None, res = Some r\<rparr>))"
    using followRedirects_invalid [OF assms(1,2) nr, of env urls log] loc lu
    by (simp add: RequiemError_new_def)
  have c2: "url_resolve env loc (Some (last urls)) = Some newUrl \<and> url_parse env newUrl = None \<longrightarrow>
        ?R = (log, Rejected (Requiem \<lparr>code = InvalidUrl,
                  message = ''URL could not be formatted properly'', req = None, res = None\<rparr>))"
  proof
    assume h: "url_resolve env loc (Some (last urls)) = Some newUrl \<and> url_parse env newUrl = None"
    have rs: "url_resolve env (the (location r)) (last_url urls) = Some newUrl"
      using h loc lu by simp
    have cr: "createRequest env (newOptions options newUrl) =
                (newOptions options newUrl,
                 Inl (RequiemError_new InvalidUrl ''URL could not be formatted properly'' None None))"
      using h by (simp add: createRequest_newOptions)
    show "?R = (log, Rejected (Requiem \<lparr>code = InvalidUrl,
                  message = ''URL could not be formatted properly'', req = None, res = None\<rparr>))"
      using followRedirects_no_request [OF assms(1,2) nr rs cr]
      by (simp add: RequiemError_new_def)
  qed
  have c3: "\<forall>e. url_resolve env loc (Some (last urls)) = Some newUrl \<and> url_parse env newUrl = Some u \<and>
          lib_request env (is_https u) u hopts = Some e \<longrightarrow> ?R = (log, Rejected (Raw e))"
  proof (intro allI impI)
    fix e
    assume h: "url_resolve env loc (Some (last urls)) = Some newUrl \<and> url_parse env newUrl = Some u \<and>
          lib_request env (is_https u) u hopts = Some e"
    have rs: "url_resolve env (the (location r)) (last_url urls) = Some newUrl"
      using h loc lu by simp
    have cr: "createRequest env (newOptions options newUrl) = (newOptions options newUrl, Inl (Raw e))"
      using h ho by (simp add: createRequest_newOptions)
    show "?R = (log, Rejected (Raw e))"
      using followRedirects_no_request [OF assms(1,2) nr rs cr] .
  qed
  have c4: "url_resolve env loc (Some (last urls)) = Some newUrl \<and> url_parse env newUrl = Some u \<and>
      lib_request env (is_https u) u hopts = None \<longrightarrow>
        ?R = (let st = run_events ?h rq1 (newOptions options newUrl) (transport env log rq1)
                      (new_flight (log @ [rq1]))
           in (issued st, settled st)) \<and>
        (\<exists>rest. fst ?R = log @ [rq1] @ rest) \<and>
        (\<forall>r' evs c' loc'.
           transport env log rq1 = EvResponse r' # evs \<and> int (Suc depth) \<le> maxDepth b options \<and>
           statusCode r' = Some c' \<and> 300 \<le> c' \<and> c' < 400 \<and>
           map_of (headers r') ''location'' = Some loc' \<and> loc' \<noteq> [] \<longrightarrow>
           (url_resolve env loc' (Some newUrl) = None \<longrightarrow>
              snd ?R =
                Rejected (Requiem \<lparr>code = InvalidRedirectUrl,
                   message = ''Invalid redirect URL: '' @ loc', req = None,
                   res = Some (assign_requestedUrl r' newUrl)\<rparr>)) \<and>
           (\<forall>newUrl2 u2.
              url_resolve env loc' (Some newUrl) = Some newUrl2 \<and> url_parse env newUrl2 = Some u2 \<and>
              lib_request env (is_https u2) u2 (hopts\<lparr>opt_url := Some newUrl2\<rparr>) = None \<longrightarrow>
              (\<exists>rest. fst ?R =
                 log @
                 [rq1,
                  \<lparr>req_requestedUrl = u2, httpOptions = hopts\<lparr>opt_url := Some newUrl2\<rparr>,
                    secure = is_https u2, setHeaders = [], written = [], ended = True\<rparr>] @
                 rest)))"
  proof
    assume h: "url_resolve env loc (Some (last urls)) = Some newUrl \<and> url_parse env newUrl = Some u \<and>
      lib_request env (is_https u) u hopts = None"
    let ?rq = "\<lparr>req_requestedUrl = u, httpOptions = reqOptions (newOptions options newUrl),
               secure = is_https u, setHeaders = [], written = [], ended = False\<rparr>"
    have rq1: "rq1 = ?rq\<lparr>ended := True\<rparr>" using assms(10) ho by simp
    have rs: "url_resolve env (the (location r)) (last_url urls) = Some newUrl"
      using h loc lu by simp
    have cr: "createRequest env (newOptions options newUrl) = (newOptions options newUrl, Inr ?rq)"
      using h ho by (simp add: createRequest_newOptions)
    have eq: "?R = (let st = run_events ?h rq1 (newOptions options newUrl) (transport env log rq1)
                      (new_flight (log @ [rq1]))
           in (issued st, settled st))"
      using followRedirects_hop [OF assms(1,2) nr rs cr] rq1 by simp
    have iss: "\<exists>rest. fst ?R = log @ [rq1] @ rest"
      using followRedirects_issues [OF assms(1,2) nr rs, of u log] h ho rq1 by simp
    have ext: "\<forall>r' l. \<exists>ext. fst (?h r' l) = l @ ext"
      using followRedirects_log by blast
    have two: "(url_resolve env loc' (Some newUrl) = None \<longrightarrow>
              snd ?R =
                Rejected (Requiem \<lparr>code = InvalidRedirectUrl,
                   message = ''Invalid redirect URL: '' @ loc', req = None,
                   res = Some (assign_requestedUrl r' newUrl)\<rparr>)) \<and>
           (\<forall>newUrl2 u2.
              url_resolve env loc' (Some newUrl) = Some newUrl2 \<and> url_parse env newUrl2 = Some u2 \<and>
              lib_request env (is_https u2) u2 (hopts\<lparr>opt_url := Some newUrl2\<rparr>) = None \<longrightarrow>
              (\<exists>rest. fst ?R =
                 log @
                 [rq1,
                  \<lparr>req_requestedUrl = u2, httpOptions = hopts\<lparr>opt_url := Some newUrl2\<rparr>,
                    secure = is_https u2, setHeaders = [], written = [], ended = True\<rparr>] @
                 rest))"
      if t: "transport env log rq1 = EvResponse r' # evs \<and> int (Suc depth) \<le> maxDepth b options \<and>
           statusCode r' = Some c' \<and> 300 \<le> c' \<and> c' < 400 \<and>
           map_of (headers r') ''location'' = Some loc' \<and> loc' \<noteq> []"
      for r' evs c' loc'
    proof -
      let ?r2 = "assign_requestedUrl r' newUrl"
      let ?st0 = "new_flight (log @ [rq1])"
      let ?st1 = "dispatch ?h rq1 (newOptions options newUrl) (EvResponse r') ?st0"
      let ?fin = "run_events ?h rq1 (newOptions options newUrl) evs ?st1"
      have d2: "int (Suc depth) \<le> maxDepth b options" using t by simp
      have nr2: "\<not> not_a_redirect ?r2"
        using t by (intro redirect_cases [of ?r2 c' loc']) simp_all
      have loc2: "the (location ?r2) = loc'" using t by simp
      have R: "?R = (issued ?fin, settled ?fin)" using eq t by (simp add: Let_def)
      have st1: "?st1 = ?st0\<lparr>issued := fst (?h r' (log @ [rq1])),
                            settled := settle_with (snd (?h r' (log @ [rq1]))) Pending\<rparr>"
        by (simp add: dispatch_def on_response_def new_flight_def split: prod.splits)
      show ?thesis
      proof (intro conjI impI allI)
        assume n: "url_resolve env loc' (Some newUrl) = None"
        have "?h r' (log @ [rq1]) =
                (log @ [rq1], Rejected (RequiemError_new InvalidRedirectUrl
                    (''Invalid redirect URL: '' @ loc') None (Some ?r2)))"
          using followRedirects_invalid [OF assms(1) d2 nr2, of env "urls @ [newUrl]" "log @ [rq1]"]
            n loc2 by simp
        then have "settled ?st1 = Rejected (RequiemError_new InvalidRedirectUrl
                    (''Invalid redirect URL: '' @ loc') None (Some ?r2))"
          using st1 by simp
        then have "settled ?fin = Rejected (RequiemError_new InvalidRedirectUrl
                    (''Invalid redirect URL: '' @ loc') None (Some ?r2))"
          by (simp add: run_events_settled)
        then show "snd ?R =
                Rejected (Requiem \<lparr>code = InvalidRedirectUrl,
                   message = ''Invalid redirect URL: '' @ loc', req = None,
                   res = Some (assign_requestedUrl r' newUrl)\<rparr>)"
          using R by (simp add: RequiemError_new_def)
      next
        fix newUrl2 u2
        assume s: "url_resolve env loc' (Some newUrl) = Some newUrl2 \<and>
                   url_parse env newUrl2 = Some u2 \<and>
                   lib_request env (is_https u2) u2 (hopts\<lparr>opt_url := Some newUrl2\<rparr>) = None"
        let ?rq2 = "\<lparr>req_requestedUrl = u2, httpOptions = hopts\<lparr>opt_url := Some newUrl2\<rparr>,
                    secure = is_https u2, setHeaders = [], written = [], ended = True\<rparr>"
        have ho2: "hopts\<lparr>opt_url := Some newUrl2\<rparr> = reqOptions (newOptions options newUrl2)"
          using assms(9) by (simp add: reqOptions_def newOptions_def)
        have rs2: "url_resolve env (the (location ?r2)) (last_url (urls @ [newUrl])) = Some newUrl2"
          using s loc2 by simp
        obtain rest1 where r1: "fst (?h r' (log @ [rq1])) = (log @ [rq1]) @ [?rq2] @ rest1"
          using followRedirects_issues [OF assms(1) d2 nr2 rs2, of u2 "log @ [rq1]"] s ho2
          by auto
        have "issued ?st1 = (log @ [rq1]) @ [?rq2] @ rest1" using st1 r1 by simp
        moreover obtain ext2 where "issued ?fin = issued ?st1 @ ext2"
          using run_events_issued [OF ext, of rq1 "newOptions options newUrl" evs ?st1] by blast
        ultimately have "fst ?R = log @ [rq1, ?rq2] @ (rest1 @ ext2)" using R by simp
        then show "\<exists>rest. fst ?R = log @ [rq1, ?rq2] @ rest" by blast
      qed
    qed
    show "?R = (let st = run_events ?h rq1 (newOptions options newUrl) (transport env log rq1)
                      (new_flight (log @ [rq1]))
           in (issued st, settled st)) \<and>
        (\<exists>rest. fst ?R = log @ [rq1] @ rest) \<and>
        (\<forall>r' evs c' loc'.
           transport env log rq1 = EvResponse r' # evs \<and> int (Suc depth) \<le> maxDepth b options \<and>
           statusCode r' = Some c' \<and> 300 \<le> c' \<and> c' < 400 \<and>
           map_of (headers r') ''location'' = Some loc' \<and> loc' \<noteq> [] \<longrightarrow>
           (url_resolve env loc' (Some newUrl) = None \<longrightarrow>
              snd ?R =
                Rejected (Requiem \<lparr>code = InvalidRedirectUrl,
                   message = ''Invalid redirect URL: '' @ loc', req = None,
                   res = Some (assign_requestedUrl r' newUrl)\<rparr>)) \<and>
           (\<forall>newUrl2 u2.
              url_resolve env loc' (Some newUrl) = Some newUrl2 \<and> url_parse env newUrl2 = Some u2 \<and>
              lib_request env (is_https u2) u2 (hopts\<lparr>opt_url := Some newUrl2\<rparr>) = None \<longrightarrow>
              (\<exists>rest. fst ?R =
                 log @
                 [rq1,
                  \<lparr>req_requestedUrl = u2, httpOptions = hopts\<lparr>opt_url := Some newUrl2\<rparr>,
                    secure = is_https u2, setHeaders = [], written = [], ended = True\<rparr>] @
                 rest)))"
      using eq iss two by blast
  qed
  show ?thesis
    by (rule conjI [OF c1 conjI [OF c2 conjI [OF c3 c4]]])
qed

theorem C5_hop_witness:
  "url_resolve ex_env ''http://g/b'' (Some (last [''http://h/a''])) = Some ''http://g/b'' \<and>
   url_resolve ex_env ''/c'' (Some ''http://g/b'') = Some ''http://g/c'' \<and>
   (\<exists>rest. fst (followRedirects IndexTs ex_env [''http://h/a'']
                  (ex_response (ex_redirect ''http://g/b'') ''http://h/a'')
                  ((ex_options ''http://h/a'')\<lparr>opt_host := Some ''h'', opt_method := Some ''POST''\<rparr>)
                  0 []) =
      [] @
      [\<lparr>req_requestedUrl = ''http://g/b'',
         httpOptions = (ex_options ''http://g/b'')\<lparr>opt_method := Some ''GET''\<rparr>,
         secure = False, setHeaders = [], written = [], ended = True\<rparr>,
       \<lparr>req_requestedUrl = ''http://g/c'',
         httpOptions = (ex_options ''http://g/c'')\<lparr>opt_method := Some ''GET''\<rparr>,
         secure = False, setHeaders = [], written = [], ended = True\<rparr>] @ rest)"
proof -
  let ?o = "(ex_options ''http://h/a'')\<lparr>opt_host := Some ''h'', opt_method := Some ''POST''\<rparr>"
  let ?r = "ex_response (ex_redirect ''http://g/b'') ''http://h/a''"
  let ?ho = "(ex_options ''http://g/b'')\<lparr>opt_method := Some ''GET''\<rparr>"
  let ?rq1 = "\<lparr>req_requestedUrl = ''http://g/b'', httpOptions = ?ho, secure = is_https ''http://g/b'',
               setHeaders = [], written = [], ended = True\<rparr>"
  have a1: "\<not> redirects_off IndexTs ?o" by (simp add: redirects_off_def)
  have a2: "int 0 \<le> maxDepth IndexTs ?o"
    by (simp add: maxDepth_def ex_options_def empty_options_def defaultFollowRedirects_def)
  have a3: "statusCode ?r = Some 302" and a6: "location ?r = Some ''http://g/b''" by simp_all
  have a4: "(300::int) \<le> 302" and a5: "(302::int) < 400" and a7: "''http://g/b'' \<noteq> []"
    and a8: "[''http://h/a''] \<noteq> []" by simp_all
  have a9: "?ho = ?o\<lparr>opt_host := None, opt_path := None, opt_port := None,
                         opt_protocol := None, opt_url := Some ''http://g/b'',
                         opt_method := Some ''GET'', opt_followRedirects := FollowUnset,
                         opt_throwOnErrorResponse := ThrowUnset, opt_body := None,
                         opt_bodyJson := None\<rparr>"
    by (simp add: ex_options_def empty_options_def)
  have a10: "?rq1 = ?rq1" by (rule refl)
  have rs: "url_resolve ex_env ''http://g/b'' (Some (last [''http://h/a''])) = Some ''http://g/b''"
    by (simp add: ex_env_def)
  have h4: "url_resolve ex_env ''http://g/b'' (Some (last [''http://h/a''])) = Some ''http://g/b'' \<and>
            url_parse ex_env ''http://g/b'' = Some ''http://g/b'' \<and>
            lib_request ex_env (is_https ''http://g/b'') ''http://g/b'' ?ho = None"
    by (simp add: ex_env_def)
  have t: "transport ex_env [] ?rq1 = EvResponse (ex_redirect ''/c'') # [] \<and>
           int (Suc 0) \<le> maxDepth IndexTs ?o \<and>
           statusCode (ex_redirect ''/c'') = Some 302 \<and> (300::int) \<le> 302 \<and> (302::int) < 400 \<and>
           map_of (headers (ex_redirect ''/c'')) ''location'' = Some ''/c'' \<and> ''/c'' \<noteq> []"
    by (simp add: ex_env_def ex_transport_def ex_redirect_def maxDepth_def ex_options_def
          empty_options_def defaultFollowRedirects_def)
  have rs2: "url_resolve ex_env ''/c'' (Some ''http://g/b'') = Some ''http://g/c''"
    by (simp add: ex_env_def)
  have s: "url_resolve ex_env ''/c'' (Some ''http://g/b'') = Some ''http://g/c'' \<and>
           url_parse ex_env ''http://g/c'' = Some ''http://g/c'' \<and>
           lib_request ex_env (is_https ''http://g/c'') ''http://g/c''
             (?ho\<lparr>opt_url := Some ''http://g/c''\<rparr>) = None"
    by (simp add: ex_env_def)
  have "\<exists>rest. fst (followRedirects IndexTs ex_env [''http://h/a''] ?r ?o 0 []) =
          [] @
          [?rq1,
           \<lparr>req_requestedUrl = ''http://g/c'', httpOptions = ?ho\<lparr>opt_url := Some ''http://g/c''\<rparr>,
             secure = is_https ''http://g/c'', setHeaders = [], written = [], ended = True\<rparr>] @ rest"
    using C5_hop [OF a1 a2 a3 a4 a5 a6 a7 a8 a9 a10, of ex_env "[]", THEN conjunct2,
            THEN conjunct2, THEN conjunct2, rule_format, OF h4, THEN conjunct2, THEN conjunct2,
            rule_format, OF t, THEN conjunct2, rule_format, OF s] .
  then show ?thesis using rs rs2
    by (simp add: is_https_def ex_options_def empty_options_def)
qed

text \<open>
  Counterexample to "on success it issues the new request": the \<^verbatim>\<open>Location\<close>
  \<^verbatim>\<open>ftp://h/x\<close> resolves, but \<^verbatim>\<open>http.request\<close> throws on it, so the call fails
  with that error and the first request stays the only one issued.
\<close>

theorem C5_counterexample:
  "url_resolve ex_env ''ftp://h/x'' (Some ''http://h/f'') = Some ''ftp://h/x'' \<and>
   snd (request IndexTs ex_env (Url ''http://h/f'') [] []) =
     ([\<lparr>req_requestedUrl = ''http://h/f'',
         httpOptions = (ex_options ''http://h/f'')\<lparr>opt_method := Some ''GET''\<rparr>,
         secure = False, setHeaders = [], written = [], ended = True\<rparr>],
      Inr (Rejected (Raw ''ERR_INVALID_PROTOCOL'')))"
  by (simp add: ex_defs model_defs)

subsection \<open>Abort and timeout\<close>

lemma on_abort_inv: "abort_inv st \<Longrightarrow> abort_inv (on_abort rq options st)"
  by (simp add: abort_inv_def on_abort_def)

lemma dispatch_abort_inv: "abort_inv st \<Longrightarrow> abort_inv (dispatch h rq options ev st)"
proof (cases ev)
  case (EvResponse r)
  then show "abort_inv st \<Longrightarrow> ?thesis"
    by (simp add: abort_inv_def dispatch_def on_response_def split: prod.splits)
next
  case (EvError e)
  then show "abort_inv st \<Longrightarrow> ?thesis"
    by (simp add: abort_inv_def dispatch_def on_error_def)
next
  case EvTimeout
  then show "abort_inv st \<Longrightarrow> ?thesis"
    by (simp add: abort_inv_def dispatch_def on_timeout_def req_abort_def on_abort_def Let_def)
next
  case EvAbort
  then show "abort_inv st \<Longrightarrow> ?thesis"
    by (simp add: abort_inv_def dispatch_def on_abort_def)
qed

lemma run_events_abort_inv: "abort_inv st \<Longrightarrow> abort_inv (run_events h rq options evs st)"
  by (induction evs arbitrary: st) (simp_all add: dispatch_abort_inv)

lemma abortRejects_le_1: "abortRejects (run_events h rq options evs (new_flight log)) \<le> 1"
proof -
  have "abort_inv (new_flight log)" by (simp add: abort_inv_def new_flight_def)
  then have "abort_inv (run_events h rq options evs (new_flight log))"
    by (rule run_events_abort_inv)
  then show ?thesis by (simp add: abort_inv_def split: if_splits)
qed

lemma dispatch_timedOut:
  "timedOut (dispatch h rq options ev st) = (timedOut st \<or> ev = EvTimeout)"
  by (cases ev)
     (simp_all add: dispatch_def on_response_def on_error_def on_timeout_def req_abort_def
        on_abort_def Let_def split: prod.splits)

lemma run_events_timedOut:
  "timedOut (run_events h rq options evs st) = (timedOut st \<or> EvTimeout \<in> set evs)"
  by (induction evs arbitrary: st) (auto simp: dispatch_timedOut)

lemma run_events_append:
  "run_events h rq options (xs @ ys) st = run_events h rq options ys (run_events h rq options xs st)"
  by (induction xs arbitrary: st) simp_all

lemma dispatch_pending_inv: "pending_inv st \<Longrightarrow> pending_inv (dispatch h rq options ev st)"
  by (cases ev)
     (auto simp: pending_inv_def dispatch_def on_response_def on_error_def on_timeout_def
        req_abort_def on_abort_def Let_def reject_def settle_with_def resolve_def
        split: prod.splits promise.splits)

lemma run_events_pending_inv: "pending_inv st \<Longrightarrow> pending_inv (run_events h rq options evs st)"
  by (induction evs arbitrary: st) (simp_all add: dispatch_pending_inv)

lemma new_flight_pending_inv: "pending_inv (new_flight log)"
  by (simp add: pending_inv_def new_flight_def)

text \<open>
  C6. For a request wired by \<^verbatim>\<open>wireRequestEvents\<close>, whatever its events and its
  \<^verbatim>\<open>response\<close> listener: the \<^verbatim>\<open>abort\<close> listener calls \<^verbatim>\<open>reject\<close> once at most; once
  it has, a further \<^verbatim>\<open>abort\<close> changes nothing; when it rejects a pending promise,
  the failure is \<^verbatim>\<open>Timeout\<close> if the timed-out flag is set (the message gives the
  configured timeout in ms, or \<^verbatim>\<open>node default\<close>) and \<^verbatim>\<open>RequestAbort\<close> with the
  message \<^verbatim>\<open>Request was aborted\<close> otherwise, and it carries the request; the
  timed-out flag is set exactly by a \<^verbatim>\<open>timeout\<close> event. On the events: while the
  promise is pending, an \<^verbatim>\<open>abort\<close> event fails the call with \<^verbatim>\<open>RequestAbort\<close> and
  a \<^verbatim>\<open>timeout\<close> event (whose listener aborts the request) fails it with
  \<^verbatim>\<open>Timeout\<close>, whatever follows; once the promise is settled, no later event
  changes its outcome.
\<close>

theorem C6_abort_settles_once:
  "abortRejects (run_events h rq options evs (new_flight log)) \<le> 1 \<and>
   (rejected st \<longrightarrow> on_abort rq options st = st) \<and>
   (\<not> rejected st \<and> settled st = Pending \<and> timedOut st \<longrightarrow>
      settled (on_abort rq options st) =
        Rejected (Requiem \<lparr>code = Timeout,
           message = ''Reached timeout limit ('' @
                     (case opt_timeout options of
                        Some t \<Rightarrow> string_of_int t @ ''ms'' | None \<Rightarrow> ''node default'') @
                     ''), request aborted'',
           req = Some rq, res = None\<rparr>)) \<and>
   (\<not> rejected st \<and> settled st = Pending \<and> \<not> timedOut st \<longrightarrow>
      settled (on_abort rq options st) =
        Rejected (Requiem \<lparr>code = RequestAbort, message = ''Request was aborted'',
           req = Some rq, res = None\<rparr>)) \<and>
   timedOut (run_events h rq options evs (new_flight log)) = (EvTimeout \<in> set evs) \<and>
   (settled (run_events h rq options pre (new_flight log)) = Pending \<longrightarrow>
      settled (run_events h rq options (pre @ EvAbort # post) (new_flight log)) =
        Rejected (Requiem \<lparr>code = RequestAbort, message = ''Request was aborted'',
           req = Some rq, res = None\<rparr>) \<and>
      settled (run_events h rq options (pre @ EvTimeout # post) (new_flight log)) =
        Rejected (Requiem \<lparr>code = Timeout,
           message = ''Reached timeout limit ('' @
                     (case opt_timeout options of
                        Some t \<Rightarrow> string_of_int t @ ''ms'' | None \<Rightarrow> ''node default'') @
                     ''), request aborted'',
           req = Some rq, res = None\<rparr>)) \<and>
   (settled (run_events h rq options pre (new_flight log)) \<noteq> Pending \<longrightarrow>
      settled (run_events h rq options (pre @ post) (new_flight log)) =
        settled (run_events h rq options pre (new_flight log)))"
proof (intro conjI impI)
  let ?st = "run_events h rq options pre (new_flight log)"
  show "abortRejects (run_events h rq options evs (new_flight log)) \<le> 1"
    by (rule abortRejects_le_1)
  show "rejected st \<Longrightarrow> on_abort rq options st = st"
    by (simp add: on_abort_def)
  show "\<not> rejected st \<and> settled st = Pending \<and> timedOut st \<Longrightarrow>
      settled (on_abort rq options st) =
        Rejected (Requiem \<lparr>code = Timeout,
           message = ''Reached timeout limit ('' @
                     (case opt_timeout options of
                        Some t \<Rightarrow> string_of_int t @ ''ms'' | None \<Rightarrow> ''node default'') @
                     ''), request aborted'',
           req = Some rq, res = None\<rparr>)"
    by (simp add: on_abort_def RequiemError_new_def timeout_message_def)
  show "\<not> rejected st \<and> settled st = Pending \<and> \<not> timedOut st \<Longrightarrow>
      settled (on_abort rq options st) =
        Rejected (Requiem \<lparr>code = RequestAbort, message = ''Request was aborted'',
           req = Some rq, res = None\<rparr>)"
    by (simp add: on_abort_def RequiemError_new_def)
  show "timedOut (run_events h rq options evs (new_flight log)) = (EvTimeout \<in> set evs)"
    by (simp add: run_events_timedOut new_flight_def)
  have pi: "pending_inv ?st"
    using new_flight_pending_inv by (rule run_events_pending_inv)
  {
    assume p: "settled ?st = Pending"
    then have f: "\<not> rejected ?st" "\<not> aborted ?st" "\<not> timedOut ?st"
      using pi by (simp_all add: pending_inv_def)
    have "settled (dispatch h rq options EvAbort ?st) =
        Rejected (Requiem \<lparr>code = RequestAbort, message = ''Request was aborted'',
           req = Some rq, res = None\<rparr>)"
      using p f by (simp add: dispatch_def on_abort_def RequiemError_new_def)
    then show "settled (run_events h rq options (pre @ EvAbort # post) (new_flight log)) =
        Rejected (Requiem \<lparr>code = RequestAbort, message = ''Request was aborted'',
           req = Some rq, res = None\<rparr>)"
      by (simp add: run_events_append run_events_settled)
    have "settled (dispatch h rq options EvTimeout ?st) =
        Rejected (Requiem \<lparr>code = Timeout,
           message = ''Reached timeout limit ('' @
                     (case opt_timeout options of
                        Some t \<Rightarrow> string_of_int t @ ''ms'' | None \<Rightarrow> ''node default'') @
                     ''), request aborted'',
           req = Some rq, res = None\<rparr>)"
      using p f
      by (simp add: dispatch_def on_timeout_def req_abort_def on_abort_def RequiemError_new_def
            timeout_message_def Let_def)
    then show "settled (run_events h rq options (pre @ EvTimeout # post) (new_flight log)) =
        Rejected (Requiem \<lparr>code = Timeout,
           message = ''Reached timeout limit ('' @
                     (case opt_timeout options of
                        Some t \<Rightarrow> string_of_int t @ ''ms'' | None \<Rightarrow> ''node default'') @
                     ''), request aborted'',
           req = Some rq, res = None\<rparr>)"
      by (simp add: run_events_append run_events_settled)
  }
  show "settled ?st \<noteq> Pending \<Longrightarrow>
      settled (run_events h rq options (pre @ post) (new_flight log)) = settled ?st"
    by (simp add: run_events_append run_events_settled)
qed

theorem C6_abort_settles_once_witness:
  "settled (run_events (\<lambda>r l. (l, Pending)) \<lparr>req_requestedUrl = ''http://h/slow'',
        httpOptions = ex_options ''http://h/slow'', secure = False, setHeaders = [],
        written = [], ended = True\<rparr>
      ((ex_options ''http://h/slow'')\<lparr>opt_timeout := Some 100\<rparr>)
      ([] @ EvTimeout # [EvAbort, EvError ''late'']) (new_flight [])) =
     Rejected (Requiem \<lparr>code = Timeout,
        message = ''Reached timeout limit (100ms), request aborted'',
        req = Some \<lparr>req_requestedUrl = ''http://h/slow'',
                httpOptions = ex_options ''http://h/slow'', secure = False, setHeaders = [],
                written = [], ended = True\<rparr>, res = None\<rparr>) \<and>
   settled (run_events (\<lambda>r l. (l, Pending)) \<lparr>req_requestedUrl = ''http://h/slow'',
        httpOptions = ex_options ''http://h/slow'', secure = False, setHeaders = [],
        written = [], ended = True\<rparr>
      ((ex_options ''http://h/slow'')\<lparr>opt_timeout := Some 100\<rparr>)
      ([] @ EvAbort # [EvAbort, EvError ''late'']) (new_flight [])) =
     Rejected (Requiem \<lparr>code = RequestAbort, message = ''Request was aborted'',
        req = Some \<lparr>req_requestedUrl = ''http://h/slow'',
                httpOptions = ex_options ''http://h/slow'', secure = False, setHeaders = [],
                written = [], ended = True\<rparr>, res = None\<rparr>)"
proof -
  let ?h = "\<lambda>(r::IncomingMessage) (l::RequiemRequest list). (l, Pending::RequiemResponse promise)"
  let ?rq = "\<lparr>req_requestedUrl = ''http://h/slow'',
        httpOptions = ex_options ''http://h/slow'', secure = False, setHeaders = [],
        written = [], ended = True\<rparr>"
  let ?o = "(ex_options ''http://h/slow'')\<lparr>opt_timeout := Some 100\<rparr>"
  have p: "settled (run_events ?h ?rq ?o [] (new_flight [])) = Pending"
    by (simp add: new_flight_def)
  have t: "opt_timeout ?o = Some 100" by simp
  have s: "string_of_int 100 = ''100''"
    by (simp add: string_of_int_def string_of_nat.simps digit_def)
  show ?thesis
    using C6_abort_settles_once [of ?h ?rq ?o "[]" "[]" "new_flight []" "[]"
            "[EvAbort, EvError ''late'']", THEN conjunct2, THEN conjunct2, THEN conjunct2,
            THEN conjunct2, THEN conjunct2, THEN conjunct1, rule_format, OF p] t s
    by simp
qed

subsection \<open>Status validation\<close>

text \<open>
  C7. After the redirects have settled with a final response: with a number as
  \<^verbatim>\<open>throwOnErrorResponse\<close> the call fails with \<^verbatim>\<open>InvalidStatusCode\<close> unless the
  status is that number, and the message gives the status observed and the one
  expected; with \<^verbatim>\<open>true\<close> it fails exactly when the status is at least 400, and
  the message gives the status observed only; with \<^verbatim>\<open>false\<close> or nothing, the
  response is returned. The failure carries the first request and the final
  response.
\<close>

theorem C7_status_validation:
  assumes "followRedirects b env [req_requestedUrl rq] (assign_requestedUrl r (req_requestedUrl rq))
             options 0 log = (log', Resolved result)"
  shows "(\<forall>n. opt_throwOnErrorResponse options = ThrowNum n \<longrightarrow>
            responseHandler b env rq r options log =
              (log',
               if statusCode result = Some n then Resolved result
               else Rejected (Requiem \<lparr>code = InvalidStatusCode,
                      message = ''Received invalid status code from \"'' @ requestedUrl result @
                                ''\": '' @ status_text (statusCode result) @
                                '' (expected '' @ string_of_int n @ '')'',
                      req = Some rq, res = Some result\<rparr>))) \<and>
         (opt_throwOnErrorResponse options = ThrowBool True \<longrightarrow>
            responseHandler b env rq r options log =
              (log',
               if \<exists>c. statusCode result = Some c \<and> 400 \<le> c
               then Rejected (Requiem \<lparr>code = InvalidStatusCode,
                      message = ''Received invalid status code from \"'' @ requestedUrl result @
                                ''\": '' @ status_text (statusCode result),
                      req = Some rq, res = Some result\<rparr>)
               else Resolved result)) \<and>
         (opt_throwOnErrorResponse options = ThrowBool False \<or>
          opt_throwOnErrorResponse options = ThrowUnset \<longrightarrow>
            responseHandler b env rq r options log = (log', Resolved result))"
  using assms
  by (auto simp: responseHandler_def await_then_def validate_def RequiemError_new_def
        invalid_status_message_def truthy_num_def split: option.splits)

theorem C7_status_validation_witness:
  "responseHandler IndexTs ex_env
     \<lparr>req_requestedUrl = ''http://h/500'', httpOptions = ex_options ''http://h/500'',
      secure = False, setHeaders = [], written = [], ended = True\<rparr>
     (ex_page 500) ((ex_options ''http://h/500'')\<lparr>opt_throwOnErrorResponse := ThrowNum 200\<rparr>) [] =
   ([], Rejected (Requiem \<lparr>code = InvalidStatusCode,
          message = ''Received invalid status code from \"http://h/500\": 500 (expected 200)'',
          req = Some \<lparr>req_requestedUrl = ''http://h/500'', httpOptions = ex_options ''http://h/500'',
                  secure = False, setHeaders = [], written = [], ended = True\<rparr>,
          res = Some (ex_response (ex_page 500) ''http://h/500'')\<rparr>)) \<and>
   responseHandler IndexTs ex_env
     \<lparr>req_requestedUrl = ''http://h/500'', httpOptions = ex_options ''http://h/500'',
      secure = False, setHeaders = [], written = [], ended = True\<rparr>
     (ex_page 500) ((ex_options ''http://h/500'')\<lparr>opt_throwOnErrorResponse := ThrowBool True\<rparr>) [] =
   ([], Rejected (Requiem \<lparr>code = InvalidStatusCode,
          message = ''Received invalid status code from \"http://h/500\": 500'',
          req = Some \<lparr>req_requestedUrl = ''http://h/500'', httpOptions = ex_options ''http://h/500'',
                  secure = False, setHeaders = [], written = [], ended = True\<rparr>,
          res = Some (ex_response (ex_page 500) ''http://h/500'')\<rparr>))"
proof -
  let ?rq = "\<lparr>req_requestedUrl = ''http://h/500'', httpOptions = ex_options ''http://h/500'',
      secure = False, setHeaders = [], written = [], ended = True\<rparr>"
  let ?res = "ex_response (ex_page 500) ''http://h/500''"
  let ?on = "(ex_options ''http://h/500'')\<lparr>opt_throwOnErrorResponse := ThrowNum 200\<rparr>"
  let ?ob = "(ex_options ''http://h/500'')\<lparr>opt_throwOnErrorResponse := ThrowBool True\<rparr>"
  have nr: "not_a_redirect ?res" by (simp add: not_a_redirect_cases)
  have fn: "followRedirects IndexTs ex_env [req_requestedUrl ?rq]
              (assign_requestedUrl (ex_page 500) (req_requestedUrl ?rq)) ?on 0 [] = ([], Resolved ?res)"
    using nr
    by (simp add: followRedirects_final redirects_off_def maxDepth_def ex_options_def
          empty_options_def defaultFollowRedirects_def ex_response_def)
  have fb: "followRedirects IndexTs ex_env [req_requestedUrl ?rq]
              (assign_requestedUrl (ex_page 500) (req_requestedUrl ?rq)) ?ob 0 [] = ([], Resolved ?res)"
    using nr
    by (simp add: followRedirects_final redirects_off_def maxDepth_def ex_options_def
          empty_options_def defaultFollowRedirects_def ex_response_def)
  have n: "opt_throwOnErrorResponse ?on = ThrowNum 200" by simp
  have bt: "opt_throwOnErrorResponse ?ob = ThrowBool True" by simp
  have s: "string_of_int 500 = ''500''" "string_of_int 200 = ''200''"
    by (simp_all add: string_of_int_def string_of_nat.simps digit_def)
  show ?thesis
    using C7_status_validation [OF fn, THEN conjunct1, rule_format, OF n]
      C7_status_validation [OF fb, THEN conjunct2, THEN conjunct1, rule_format, OF bt] s
    by (simp add: status_text_def)
qed

subsection \<open>The JSON body\<close>

text \<open>
  C8. When \<^verbatim>\<open>bodyJson\<close> is set, whether \<^verbatim>\<open>body\<close> is set too or not,
  \<^verbatim>\<open>sendRequest\<close> sets the header \<^verbatim>\<open>Content-Type: application/json\<close>, and what it
  writes to the request is the JSON text of the value and nothing else, after
  which the request is ended. When serializing throws, nothing is written, the
  request is not ended, and the promise is rejected with the error thrown.
\<close>

theorem C8_json_body:
  assumes "opt_bodyJson optionsObj = Some v"
    and "sendRequest b env rq optionsObj log = (rq', log', p)"
  shows "setHeaders rq' = setHeaders rq @ [(''Content-Type'', ''application/json'')] \<and>
         (\<forall>text. json_stringify env v = Inr text \<longrightarrow>
            written rq' = written rq @ [text] \<and> ended rq') \<and>
         (\<forall>e. json_stringify env v = Inl e \<longrightarrow>
            written rq' = written rq \<and> ended rq' = ended rq \<and> p = Rejected e)"
proof (cases "json_stringify env v")
  case (Inl e)
  let ?rq1 = "rq\<lparr>setHeaders := setHeaders rq @ [(''Content-Type'', ''application/json'')]\<rparr>"
  have wb: "write_body env optionsObj rq = (?rq1, Some e)"
    using assms(1) Inl by (simp add: write_body_def)
  have "rq' = ?rq1" using assms(2) wb by (simp add: sendRequest_def Let_def)
  moreover have "p = Rejected e"
    using assms(2) wb
    by (auto simp: sendRequest_def Let_def new_flight_def run_events_settled)
  ultimately show ?thesis using Inl by simp
next
  case (Inr s)
  let ?rq1 = "rq\<lparr>setHeaders := setHeaders rq @ [(''Content-Type'', ''application/json'')]\<rparr>"
  have wb: "write_body env optionsObj rq = (?rq1\<lparr>written := written ?rq1 @ [s], ended := True\<rparr>, None)"
    using assms(1) Inr by (simp add: write_body_def)
  have "rq' = ?rq1\<lparr>written := written ?rq1 @ [s], ended := True\<rparr>"
    using assms(2) wb by (simp add: sendRequest_def Let_def)
  then show ?thesis using Inr by simp
qed

theorem C8_json_body_witness:
  "opt_bodyJson ((ex_options ''http://h/200'')\<lparr>opt_bodyJson := Some (JStr ''hi''),
       opt_body := Some ''raw''\<rparr>) = Some (JStr ''hi'') \<and>
   json_stringify ex_env (JStr ''hi'') = Inr ''\"hi\"'' \<and>
   setHeaders (fst (sendRequest IndexTs ex_env
     \<lparr>req_requestedUrl = ''http://h/200'', httpOptions = ex_options ''http://h/200'',
      secure = False, setHeaders = [], written = [], ended = False\<rparr>
     ((ex_options ''http://h/200'')\<lparr>opt_bodyJson := Some (JStr ''hi''), opt_body := Some ''raw''\<rparr>)
     [])) = [(''Content-Type'', ''application/json'')] \<and>
   written (fst (sendRequest IndexTs ex_env
     \<lparr>req_requestedUrl = ''http://h/200'', httpOptions = ex_options ''http://h/200'',
      secure = False, setHeaders = [], written = [], ended = False\<rparr>
     ((ex_options ''http://h/200'')\<lparr>opt_bodyJson := Some (JStr ''hi''), opt_body := Some ''raw''\<rparr>)
     [])) = [''\"hi\"'']"
proof -
  let ?rq = "\<lparr>req_requestedUrl = ''http://h/200'', httpOptions = ex_options ''http://h/200'',
      secure = False, setHeaders = [], written = [], ended = False\<rparr>"
  let ?o = "(ex_options ''http://h/200'')\<lparr>opt_bodyJson := Some (JStr ''hi''), opt_body := Some ''raw''\<rparr>"
  obtain rq' log' p where sr: "sendRequest IndexTs ex_env ?rq ?o [] = (rq', log', p)"
    by (cases "sendRequest IndexTs ex_env ?rq ?o []") auto
  have a: "opt_bodyJson ?o = Some (JStr ''hi'')" by simp
  have j: "json_stringify ex_env (JStr ''hi'') = Inr ''\"hi\"''" by (simp add: ex_env_def)
  have "setHeaders rq' = setHeaders ?rq @ [(''Content-Type'', ''application/json'')]"
    using C8_json_body [OF a sr] by blast
  moreover have "written rq' = written ?rq @ [''\"hi\"'']"
    using C8_json_body [OF a sr] j by blast
  ultimately show ?thesis using sr a j by simp
qed

subsection \<open>The caller's options object\<close>

text \<open>
  C9. \<^verbatim>\<open>createRequest\<close> (and so \<^verbatim>\<open>request\<close>) writes the method into the caller's
  object: afterwards the object at the address given has \<^verbatim>\<open>method\<close> set to its
  former value if that was a non-empty string and to \<^verbatim>\<open>GET\<close> otherwise; no other
  field and no other object changes. The fields \<^verbatim>\<open>followRedirects\<close>,
  \<^verbatim>\<open>throwOnErrorResponse\<close>, \<^verbatim>\<open>body\<close> and \<^verbatim>\<open>bodyJson\<close> are removed in the copy
  that goes to the transport only. When the options are a string, the object is
  a new one and the caller's objects are as before.
\<close>

theorem C9_method_written_to_caller_object:
  "(a < length h \<longrightarrow>
      fst (createRequest_heap env (Obj a) h) =
        h[a := (h ! a)\<lparr>opt_method := Some (or_str (opt_method (h ! a)) ''GET'')\<rparr>] \<and>
      fst (request b env (Obj a) h log) =
        h[a := (h ! a)\<lparr>opt_method := Some (or_str (opt_method (h ! a)) ''GET'')\<rparr>]) \<and>
   (\<forall>h' rq. a < length h \<and> createRequest_heap env (Obj a) h = (h', Inr rq) \<longrightarrow>
      httpOptions rq =
        (h' ! a)\<lparr>opt_followRedirects := FollowUnset, opt_throwOnErrorResponse := ThrowUnset,
                 opt_body := None, opt_bodyJson := None\<rparr>) \<and>
   take (length h) (fst (createRequest_heap env (Url u) h)) = h \<and>
   take (length h) (fst (request b env (Url u) h log)) = h"
proof -
  let ?o = "(h ! a)\<lparr>opt_method := Some (or_str (opt_method (h ! a)) ''GET'')\<rparr>"
  have f: "fst (createRequest env ob) = ob\<lparr>opt_method := Some (or_str (opt_method ob) ''GET'')\<rparr>"
    for ob
    by (simp add: createRequest_def Let_def split: option.splits)
  have c1: "fst (createRequest_heap env (Obj a) h) = h[a := ?o]"
    using f [of "h ! a"]
    by (auto simp: createRequest_heap_def getObjectionsObject_def split: prod.splits)
  have c2: "fst (request b env (Obj a) h log) = h[a := ?o]"
    using c1
    by (auto simp: request_def getObjectionsObject_def split: prod.splits sum.splits)
  have c3: "httpOptions rq =
        (h' ! a)\<lparr>opt_followRedirects := FollowUnset, opt_throwOnErrorResponse := ThrowUnset,
                 opt_body := None, opt_bodyJson := None\<rparr>"
    if "a < length h \<and> createRequest_heap env (Obj a) h = (h', Inr rq)" for h' rq
    using that
    by (auto simp: createRequest_heap_def getObjectionsObject_def createRequest_def Let_def
          reqOptions_def split: prod.splits option.splits)
  have c4: "take (length h) (fst (createRequest_heap env (Url u) h)) = h"
    by (simp add: createRequest_heap_def getObjectionsObject_def split: prod.splits)
  have c5: "take (length h) (fst (request b env (Url u) h log)) = h"
    by (auto simp: request_def createRequest_heap_def getObjectionsObject_def
          split: prod.splits sum.splits)
  show ?thesis using c1 c2 c3 c4 c5 by blast
qed

theorem C9_method_written_to_caller_object_witness:
  "0 < length [(ex_options ''http://h/200'')\<lparr>opt_body := Some ''raw'',
        opt_followRedirects := FollowNum 2\<rparr>] \<and>
   fst (request IndexTs ex_env (Obj 0)
     [(ex_options ''http://h/200'')\<lparr>opt_body := Some ''raw'', opt_followRedirects := FollowNum 2\<rparr>] []) =
   [(ex_options ''http://h/200'')\<lparr>opt_body := Some ''raw'', opt_followRedirects := FollowNum 2,
       opt_method := Some ''GET''\<rparr>]"
proof -
  let ?o = "(ex_options ''http://h/200'')\<lparr>opt_body := Some ''raw'', opt_followRedirects := FollowNum 2\<rparr>"
  have l: "0 < length [?o]" by simp
  have m: "or_str (opt_method ([?o] ! 0)) ''GET'' = ''GET''"
    by (simp add: ex_options_def empty_options_def or_str_def)
  show ?thesis
    using C9_method_written_to_caller_object [of 0 "[?o]" ex_env IndexTs "[]", THEN conjunct1,
            rule_format, OF l, THEN conjunct2] m l
    by simp
qed

text \<open>
  Counterexample to "never mutates": an object without a method has the method
  \<^verbatim>\<open>GET\<close> after \<^verbatim>\<open>createRequest\<close>.
\<close>

theorem C9_counterexample:
  "opt_method ([ex_options ''http://h/200''] ! 0) = None \<and>
   opt_method (fst (createRequest_heap ex_env (Obj 0) [ex_options ''http://h/200'']) ! 0) =
     Some ''GET''"
  by (simp add: ex_defs createRequest_heap_def getObjectionsObject_def createRequest_def
        or_str_def Let_def)

subsection \<open>The buffered body\<close>

lemma consume_append: "consume r (xs @ ys) c = consume r ys (consume r xs c)"
  by (induction xs arbitrary: c) simp_all

lemma consume_upstream:
  "upstream c = Resolved v \<Longrightarrow> upstream (consume r evs c) = Resolved v"
  by (induction evs arbitrary: c) (simp_all add: on_stream_def split: stream_event.splits)

lemma consume_not_rejected:
  "\<forall>e. out c \<noteq> Rejected e \<Longrightarrow> \<forall>e. out (consume r evs c) \<noteq> Rejected e"
  by (induction evs arbitrary: c)
     (auto simp: on_stream_def split: stream_event.splits promise.splits)

lemma consume_no_end:
  "End \<notin> set evs \<Longrightarrow> out (consume r evs c) = out c"
  by (induction evs arbitrary: c) (auto simp: on_stream_def split: stream_event.splits)

lemma consume_buffers:
  "buffers (consume r evs c) = buffers c @ [chunk. Data chunk \<leftarrow> evs]"
  by (induction evs arbitrary: c) (auto simp: on_stream_def split: stream_event.splits)

lemma consume_end:
  assumes "\<forall>e. out c \<noteq> Rejected e"
  shows "out (consume r (evs @ [End]) c) =
           Resolved (assign_body r (buffers c @ [chunk. Data chunk \<leftarrow> evs]))"
proof -
  have "\<forall>e. out (consume r evs c) \<noteq> Rejected e"
    using assms by (rule consume_not_rejected)
  then show ?thesis
    by (simp add: consume_append on_stream_def consume_buffers split: promise.splits)
qed

text \<open>
  C10. When \<^verbatim>\<open>request\<close> has resolved with a response, the promise of
  \<^verbatim>\<open>requestBody\<close> is never rejected; it is pending as long as the stream has not
  ended, and at the \<^verbatim>\<open>end\<close> of the stream it is resolved with the response and,
  as its body, the chunks received, in order. An error of the stream goes to the
  \<^verbatim>\<open>reject\<close> of the promise of \<^verbatim>\<open>request\<close>, which is resolved already and stays
  as it is. When \<^verbatim>\<open>request\<close> fails, \<^verbatim>\<open>requestBody\<close> fails with the same failure;
  while \<^verbatim>\<open>request\<close> is pending, so is \<^verbatim>\<open>requestBody\<close>.
\<close>

theorem C10_buffered_body:
  "(\<forall>h' log' r. request b env options h log = (h', log', Inr (Resolved r)) \<longrightarrow>
      (\<forall>e. out (snd (snd (requestBody b env options h log))) \<noteq> Rejected e) \<and>
      upstream (snd (snd (requestBody b env options h log))) = Resolved r \<and>
      (End \<notin> set (stream r) \<longrightarrow> out (snd (snd (requestBody b env options h log))) = Pending) \<and>
      (\<forall>evs. stream r = evs @ [End] \<longrightarrow>
         out (snd (snd (requestBody b env options h log))) =
           Resolved (assign_body r [chunk. Data chunk \<leftarrow> evs]))) \<and>
   (\<forall>h' log' e. request b env options h log = (h', log', Inr (Rejected e)) \<or>
                request b env options h log = (h', log', Inl e) \<longrightarrow>
      out (snd (snd (requestBody b env options h log))) = Rejected e) \<and>
   (\<forall>h' log'. request b env options h log = (h', log', Inr Pending) \<longrightarrow>
      out (snd (snd (requestBody b env options h log))) = Pending)"
proof (intro conjI allI impI)
  fix h' log' r
  assume rq: "request b env options h log = (h', log', Inr (Resolved r))"
  let ?c0 = "\<lparr>buffers = [], upstream = Resolved r, out = Pending\<rparr>"
  have rb: "snd (snd (requestBody b env options h log)) = consume r (stream r) ?c0"
    using rq by (simp add: requestBody_def)
  show "out (snd (snd (requestBody b env options h log))) \<noteq> Rejected e" for e
    using consume_not_rejected [of ?c0 r "stream r"] rb by simp
  show "upstream (snd (snd (requestBody b env options h log))) = Resolved r"
    using consume_upstream [of ?c0 r r "stream r"] rb by simp
  show "out (snd (snd (requestBody b env options h log))) = Pending"
    if "End \<notin> set (stream r)"
    using consume_no_end [OF that, of r ?c0] rb by simp
  show "out (snd (snd (requestBody b env options h log))) =
           Resolved (assign_body r [chunk. Data chunk \<leftarrow> evs])"
    if "stream r = evs @ [End]" for evs
    using consume_end [of ?c0 r evs] rb that by simp
next
  fix h' log' e
  assume "request b env options h log = (h', log', Inr (Rejected e)) \<or>
          request b env options h log = (h', log', Inl e)"
  then show "out (snd (snd (requestBody b env options h log))) = Rejected e"
    by (auto simp: requestBody_def)
next
  fix h' log'
  assume "request b env options h log = (h', log', Inr Pending)"
  then show "out (snd (snd (requestBody b env options h log))) = Pending"
    by (simp add: requestBody_def)
qed

theorem C10_buffered_body_witness:
  "request IndexTs ex_env (Url ''http://h/r1'') [] [] =
     (fst (request IndexTs ex_env (Url ''http://h/r1'') [] []),
      fst (snd (request IndexTs ex_env (Url ''http://h/r1'') [] [])),
      Inr (Resolved (ex_response (ex_page 200) ''http://h/200''))) \<and>
   out (snd (snd (requestBody IndexTs ex_env (Url ''http://h/r1'') [] []))) =
     Resolved (assign_body (ex_response (ex_page 200) ''http://h/200'') [''hello '', ''world''])"
proof -
  let ?r = "ex_response (ex_page 200) ''http://h/200''"
  have rq: "request IndexTs ex_env (Url ''http://h/r1'') [] [] =
     (fst (request IndexTs ex_env (Url ''http://h/r1'') [] []),
      fst (snd (request IndexTs ex_env (Url ''http://h/r1'') [] [])),
      Inr (Resolved ?r))"
    by (simp add: ex_defs model_defs)
  have st: "stream ?r = [Data ''hello '', Data ''world''] @ [End]"
    by (simp add: ex_defs assign_requestedUrl_def IncomingMessage.defs RequiemResponse.defs)
  show ?thesis
    using C10_buffered_body [of IndexTs ex_env "Url ''http://h/r1''" "[]" "[]", THEN conjunct1,
            rule_format, OF rq, THEN conjunct2, THEN conjunct2, THEN conjunct2, rule_format, OF st]
      rq
    by simp
qed

text \<open>
  The call \<^verbatim>\<open>requestBody("http://h/cut")\<close>, where the body breaks off with an error
  after one chunk: the promise of \<^verbatim>\<open>request\<close> stays resolved and the promise of
  \<^verbatim>\<open>requestBody\<close> stays pending, so the error reaches nobody.
\<close>

theorem C10_stream_error_lost:
  "snd (snd (requestBody IndexTs ex_env (Url ''http://h/cut'') [] [])) =
     \<lparr>buffers = [''he''], upstream = Resolved (ex_response ex_cut ''http://h/cut''),
      out = Pending\<rparr>"
  by (simp add: ex_defs model_defs requestBody_def on_stream_def)

end
